theory Spec2Isabelle
  imports Main "HOL-Library.AList"
begin

section \<open>Errors and formatting\<close>

text \<open>
  A Go \<^verbatim>\<open>error\<close> is modelled by the text its \<^verbatim>\<open>Error()\<close> method yields:
  \<^verbatim>\<open>errors.New(m)\<close> is \<open>Err m\<close>, and \<^verbatim>\<open>fmt.Errorf\<close> is \<open>Err\<close> of the formatted
  text. Errors handed back by libraries (transport failures, token failures, ...) are
  arbitrary values of the same type.
\<close>

datatype error = Err string

text \<open>The verb \<^verbatim>\<open>%d\<close> of \<^verbatim>\<open>fmt\<close>: a decimal numeral, with a sign when negative.\<close>

fun digits :: "nat \<Rightarrow> string" where
  "digits n =
     (if n < 10 then [''0123456789'' ! n]
      else digits (n div 10) @ [''0123456789'' ! (n mod 10)])"

definition itoa :: "int \<Rightarrow> string" where
  "itoa i = (if i < 0 then CHR ''-'' # digits (nat (- i)) else digits (nat i))"

text \<open>The verb \<^verbatim>\<open>%q\<close> on a string without characters to escape.\<close>

definition quoted :: "string \<Rightarrow> string" where
  "quoted s = CHR 0x22 # s @ [CHR 0x22]"

section \<open>Template download (\<^verbatim>\<open>downloadTemplate\<close>)\<close>

text \<open>
  The three status tables of \<^verbatim>\<open>provision.go\<close>, with the values of the
  \<^verbatim>\<open>net/http\<close> constants they name:
  \<^verbatim>\<open>StatusMovedPermanently\<close> 301, \<^verbatim>\<open>StatusPermanentRedirect\<close> 308,
  \<^verbatim>\<open>StatusTemporaryRedirect\<close> 307, \<^verbatim>\<open>StatusSeeOther\<close> 303, \<^verbatim>\<open>StatusFound\<close> 302;
  \<^verbatim>\<open>StatusTooManyRequests\<close> 429, \<^verbatim>\<open>StatusGatewayTimeout\<close> 504,
  \<^verbatim>\<open>StatusRequestTimeout\<close> 408; \<^verbatim>\<open>StatusOK\<close> 200.
\<close>

definition redirectCodes :: "int set" where
  "redirectCodes = {301, 308, 307, 303, 302}"

definition temporaryFailureCodes :: "int set" where
  "temporaryFailureCodes = {429, 504, 408}"

definition acceptedCodes :: "int set" where
  "acceptedCodes = {200}"

definition maxRedirects :: nat where
  "maxRedirects = 5"

definition maxRetries :: nat where
  "maxRetries = 3"

text \<open>
  What the code reads of an \<^verbatim>\<open>http.Response\<close>: the status code, the \<^verbatim>\<open>Location\<close>
  header (\<^verbatim>\<open>Header.Get\<close> yields the empty string when the header is absent) and the
  body. A body is the bytes it delivers and, possibly, the error that ends the read
  early; \<^verbatim>\<open>io.Copy\<close> writes the bytes and returns that error.
\<close>

record response =
  StatusCode :: int
  LocationHeader :: string
  Body :: string
  BodyErr :: "error option"

text \<open>
  The network: \<open>NewRequest\<close> is \<^verbatim>\<open>http.NewRequest(http.MethodGet, src, nil)\<close>, which
  fails on a URL it cannot parse; \<open>ClientDo n url\<close> is what \<^verbatim>\<open>http.DefaultClient.Do\<close>
  returns for the request for \<open>url\<close> when \<open>n\<close> calls of \<^verbatim>\<open>Do\<close> have been made before it
  (a server may answer the same URL differently over time). \<^verbatim>\<open>Do\<close> is the library's
  client, not the transport: what it does with a redirect before it returns is part of
  \<open>ClientDo\<close>, and is written out in \<open>DefaultClient\<close> below.
\<close>

record http =
  NewRequest :: "string \<Rightarrow> error option"
  ClientDo :: "nat \<Rightarrow> string \<Rightarrow> error + response"

text \<open>
  The state the download changes: the bytes written to \<^verbatim>\<open>dest\<close> (a
  \<^verbatim>\<open>bytes.Buffer\<close> at the only call site, whose writes do not fail) and the URLs
  that the closure has handed to \<^verbatim>\<open>Do\<close> so far, in order.
\<close>

record io =
  dest :: string
  requested :: "string list"

text \<open>
  \<open>download\<close> is the recursive closure of \<^verbatim>\<open>downloadTemplate\<close>, \<open>attempts\<close> its
  \<^verbatim>\<open>for attempt := 0; attempt < maxRetries; attempt++\<close> loop entered at \<open>attempt\<close>.
  \<^verbatim>\<open>depth\<close> is a \<^verbatim>\<open>uint\<close> that starts at 1 and is never incremented beyond 6, so
  it cannot wrap and is a \<open>nat\<close> here.
\<close>

function download :: "http \<Rightarrow> io \<Rightarrow> string \<Rightarrow> nat \<Rightarrow> io \<times> error option"
  and attempts :: "http \<Rightarrow> io \<Rightarrow> string \<Rightarrow> nat \<Rightarrow> nat \<Rightarrow> io \<times> error option"
where
  "download h s src depth =
     (if depth > maxRedirects then (s, Some (Err ''too many redirects''))
      else attempts h s src depth 0)"
| "attempts h s src depth attempt =
     (if attempt < maxRetries then
        (case NewRequest h src of
           Some e \<Rightarrow> (s, Some e)
         | None \<Rightarrow>
             (case ClientDo h (length (requested s)) src of
                Inl e \<Rightarrow> (s\<lparr>requested := requested s @ [src]\<rparr>, Some e)
              | Inr resp \<Rightarrow>
                  if StatusCode resp \<in> acceptedCodes then
                    (s\<lparr>requested := requested s @ [src], dest := dest s @ Body resp\<rparr>,
                     BodyErr resp)
                  else if StatusCode resp \<in> redirectCodes then
                    download h (s\<lparr>requested := requested s @ [src]\<rparr>)
                      (LocationHeader resp) (depth + 1)
                  else if StatusCode resp \<in> temporaryFailureCodes then
                    attempts h (s\<lparr>requested := requested s @ [src]\<rparr>) src depth
                      (attempt + 1)
                  else
                    (s\<lparr>requested := requested s @ [src]\<rparr>,
                     Some (Err (''unexpected status code: '' @ itoa (StatusCode resp))))))
      else (s, Some (Err ''too many attempts'')))"
  by pat_completeness auto
termination
  by (relation "measure (\<lambda>x. case x of
         Inl (h, s, src, depth) \<Rightarrow>
           (if depth > maxRedirects then 0 else (maxRedirects + 1 - depth) * 5 + 5)
       | Inr (h, s, src, depth, attempt) \<Rightarrow>
           (maxRedirects + 1 - depth) * 5 + (maxRetries - attempt) + 1)")
    (auto simp: maxRedirects_def maxRetries_def)

definition downloadTemplate :: "http \<Rightarrow> io \<Rightarrow> string \<Rightarrow> io \<times> error option" where
  "downloadTemplate h s src = download h s src 1"

text \<open>
  \<^verbatim>\<open>http.DefaultClient\<close> is the zero \<^verbatim>\<open>http.Client\<close>: no \<^verbatim>\<open>CheckRedirect\<close> is set, here or
  anywhere in the repository, so \<^verbatim>\<open>Do\<close> follows redirects itself, by the library's
  default policy. On a status 301, 302, 303, 307 or 308 that carries a \<^verbatim>\<open>Location\<close> it
  requests that location, and it gives up with an error once ten requests in a row
  were answered so; a redirect status without \<^verbatim>\<open>Location\<close> is handed to the caller as
  it is, like any other answer. \<open>follow srv n url\<close> is \<^verbatim>\<open>Do\<close> with \<open>n\<close> requests left,
  over a server \<open>srv\<close> that maps a URL to its answer. The \<^verbatim>\<open>Location\<close> is taken as the
  next URL (the resolution of a relative one against the request is left out).
\<close>

definition followedCodes :: "int set" where
  "followedCodes = {301, 302, 303, 307, 308}"

fun follow :: "(string \<Rightarrow> error + response) \<Rightarrow> nat \<Rightarrow> string \<Rightarrow> error + response" where
  "follow srv n url =
     (case srv url of
        Inl e \<Rightarrow> Inl e
      | Inr r \<Rightarrow>
          if StatusCode r \<in> followedCodes \<and> LocationHeader r \<noteq> [] then
            (if n \<le> 1 then
               Inl (Err (''Get '' @ quoted (LocationHeader r) @ '': stopped after 10 redirects''))
             else follow srv (n - 1) (LocationHeader r))
          else Inr r)"

text \<open>
  A server gives, for each call of \<^verbatim>\<open>Do\<close> (numbered from 0) and each URL, its answer or
  the error of the transport. \<open>DefaultClient srv\<close> is the network as the program sees
  it through \<^verbatim>\<open>http.DefaultClient\<close>, with every URL accepted by \<^verbatim>\<open>http.NewRequest\<close>.
  Two servers for the examples: \<open>scripted rs\<close> answers every URL, during the \<open>n\<close>-th
  call, with the \<open>n\<close>-th response of \<open>rs\<close>, and refuses the connection once the script
  is used up; \<open>site pages\<close> answers each URL of \<open>pages\<close> with its response, always the
  same, and knows no other host. \<open>answer c loc b\<close> is a response with status \<open>c\<close>,
  \<^verbatim>\<open>Location\<close> header \<open>loc\<close> and a body \<open>b\<close> that reads without error.
\<close>

type_synonym server = "nat \<Rightarrow> string \<Rightarrow> error + response"

definition DefaultClient :: "server \<Rightarrow> http" where
  "DefaultClient srv =
     \<lparr>NewRequest = (\<lambda>_. None), ClientDo = (\<lambda>n url. follow (srv n) 10 url)\<rparr>"

definition scripted :: "response list \<Rightarrow> server" where
  "scripted rs n url =
     (if n < length rs then Inr (rs ! n) else Inl (Err ''connection refused''))"

definition site :: "(string \<times> response) list \<Rightarrow> server" where
  "site pages n url =
     (case map_of pages url of Some r \<Rightarrow> Inr r | None \<Rightarrow> Inl (Err ''no such host''))"

definition answer :: "int \<Rightarrow> string \<Rightarrow> string \<Rightarrow> response" where
  "answer c loc b = \<lparr>StatusCode = c, LocationHeader = loc, Body = b, BodyErr = None\<rparr>"

definition io0 :: io where
  "io0 = \<lparr>dest = [], requested = []\<rparr>"

section \<open>Resource groups (\<^verbatim>\<open>insertResourceGroup\<close>)\<close>

text \<open>
  The two calls of \<^verbatim>\<open>resources.GroupsClient\<close> that the function makes, over a provider
  state \<open>'g\<close>. Each call yields the provider's next state and either an error or the
  status code of the response.
\<close>

record 'g GroupsClient =
  CheckExistence :: "'g \<Rightarrow> string \<Rightarrow> 'g \<times> (error + int)"
  CreateOrUpdate :: "'g \<Rightarrow> string \<Rightarrow> string \<Rightarrow> 'g \<times> (error + int)"

text \<open>
  \<^verbatim>\<open>http.StatusNoContent\<close> is 204, \<^verbatim>\<open>http.StatusNotFound\<close> 404,
  \<^verbatim>\<open>http.StatusCreated\<close> 201 and \<^verbatim>\<open>http.StatusOK\<close> 200. The result is the pair
  \<^verbatim>\<open>(bool, error)\<close> the function returns, beside the provider's state.
\<close>

definition insertResourceGroup ::
  "'g GroupsClient \<Rightarrow> 'g \<Rightarrow> string \<Rightarrow> string \<Rightarrow> 'g \<times> bool \<times> error option" where
  "insertResourceGroup groups g name location =
     (case CheckExistence groups g name of
        (g1, Inl err) \<Rightarrow> (g1, False, Some err)
      | (g1, Inr existence) \<Rightarrow>
          if existence = 204 then (g1, False, None)
          else if existence = 404 then
            (case CreateOrUpdate groups g1 name location of
               (g2, Inl err) \<Rightarrow> (g2, False, Some err)
             | (g2, Inr created) \<Rightarrow>
                 if created = 201 then (g2, True, None)
                 else if created = 200 then (g2, False, None)
                 else (g2, False,
                       Some (Err (''unexpected status code '' @ itoa created
                                  @ '' during resource group creation''))))
          else (g1, False,
                Some (Err (''unexpected status code '' @ itoa existence
                           @ '' during resource group existence check''))))"

text \<open>
  A provider to run the function against: the resource groups by name, each with its
  region, and the requests received. It answers an existence check with 204 or 404, and
  a create-or-update with 201 when it creates the group and 200 when the group is there
  already (which it then leaves as it is). The provider is a remote service, not code of
  the repository; these are the answers the function's own \<^verbatim>\<open>switch\<close> expects of it.
\<close>

datatype request = CheckExistenceRequest string | CreateOrUpdateRequest string string

record cloud =
  resourceGroups :: "string \<rightharpoonup> string"
  received :: "request list"

definition azure :: "cloud GroupsClient" where
  "azure =
     \<lparr>CheckExistence = (\<lambda>c name.
        (c\<lparr>received := received c @ [CheckExistenceRequest name]\<rparr>,
         Inr (if resourceGroups c name = None then 404 else 204))),
      CreateOrUpdate = (\<lambda>c name location.
        (case resourceGroups c name of
           None \<Rightarrow>
             (c\<lparr>resourceGroups := (resourceGroups c)(name \<mapsto> location),
                received := received c @ [CreateOrUpdateRequest name location]\<rparr>, Inr 201)
         | Some _ \<Rightarrow>
             (c\<lparr>received := received c @ [CreateOrUpdateRequest name location]\<rparr>, Inr 200)))\<rparr>"

definition cloud0 :: cloud where
  "cloud0 = \<lparr>resourceGroups = Map.empty, received = []\<rparr>"

section \<open>Parameter sanitization (\<^verbatim>\<open>stripPasswords\<close>)\<close>

text \<open>
  \<^verbatim>\<open>stripPasswords\<close> takes a pointer to a struct that holds a map, and Go maps are
  references, so the function is modelled over an explicit store: \<open>structs\<close> holds the
  \<^verbatim>\<open>DeploymentParameters\<close> values and \<open>maps\<close> the map objects, an address being an
  index. A map object is the list of its entries, in some order of iteration; a Go map
  holds each key once. \<open>Parameters\<close> is the address of the struct's map, \<open>None\<close> for the
  nil map. A pointer is \<open>Some\<close> address, or \<open>None\<close> for nil.
\<close>

datatype 'a outcome = Returns 'a | Panics

record DeploymentParameters =
  Schema :: string
  ContentVersion :: string
  Parameters :: "nat option"

record 'v heap =
  structs :: "DeploymentParameters list"
  maps :: "(string \<times> 'v) list list"

text \<open>
  Dereferencing a pointer: \<open>None\<close> is the panic of a nil dereference. An address
  outside the store, which a Go pointer never holds, is treated in the same way.
\<close>

definition load :: "'v heap \<Rightarrow> nat option \<Rightarrow> DeploymentParameters option" where
  "load h p = (case p of None \<Rightarrow> None
               | Some a \<Rightarrow> if a < length (structs h) then Some (structs h ! a) else None)"

text \<open>
  The entries a \<^verbatim>\<open>range\<close> over a map visits: none for the nil map (and none for an
  address outside the store, which a Go map value never holds).
\<close>

definition range_of :: "'v heap \<Rightarrow> nat option \<Rightarrow> (string \<times> 'v) list" where
  "range_of h m = (case m of None \<Rightarrow> []
               | Some a \<Rightarrow> if a < length (maps h) then maps h ! a else [])"

text \<open>\<^verbatim>\<open>make(map[string]DeploymentParameter, n)\<close>: a new, empty map object.\<close>

definition make_map :: "'v heap \<Rightarrow> 'v heap \<times> nat" where
  "make_map h = (h\<lparr>maps := maps h @ [[]]\<rparr>, length (maps h))"

text \<open>\<^verbatim>\<open>m[k] = v\<close> and \<^verbatim>\<open>delete(m, k)\<close> on the map object at address \<open>m\<close>.\<close>

definition mapassign :: "'v heap \<Rightarrow> nat \<Rightarrow> string \<Rightarrow> 'v \<Rightarrow> 'v heap" where
  "mapassign h m k v = h\<lparr>maps := (maps h)[m := AList.update k v (maps h ! m)]\<rparr>"

definition mapdelete :: "'v heap \<Rightarrow> nat \<Rightarrow> string \<Rightarrow> 'v heap" where
  "mapdelete h m k = h\<lparr>maps := (maps h)[m := AList.delete k (maps h ! m)]\<rparr>"

text \<open>An assignment to a field of the struct at address \<open>p\<close>.\<close>

definition store ::
  "'v heap \<Rightarrow> nat \<Rightarrow> (DeploymentParameters \<Rightarrow> DeploymentParameters) \<Rightarrow> 'v heap" where
  "store h p f = h\<lparr>structs := (structs h)[p := f (structs h ! p)]\<rparr>"

text \<open>
  Modelled from the spec: \<^verbatim>\<open>NewDeploymentParameters\<close> and the declaration of
  \<^verbatim>\<open>DeploymentParameters\<close> are in a file of the package that is not among the sources.
  From the spec's data model (a mapping from parameter name to value, a schema
  identifier and a content-version string) and from the callers, which write into
  \<^verbatim>\<open>Parameters\<close> of a value fresh from the constructor: it allocates a struct with an
  empty map. \<open>schema\<close> and \<open>version\<close> stand for the strings it fills in.
\<close>

definition NewDeploymentParameters :: "string \<Rightarrow> string \<Rightarrow> 'v heap \<Rightarrow> 'v heap \<times> nat" where
  "NewDeploymentParameters schema version h =
     (case make_map h of (h1, m) \<Rightarrow>
        (h1\<lparr>structs := structs h1 @
               [\<lparr>Schema = schema, ContentVersion = version, Parameters = Some m\<rparr>]\<rparr>,
         length (structs h1)))"

text \<open>The loop \<^verbatim>\<open>for k, v := range original.Parameters { copy.Parameters[k] = v }\<close>.\<close>

fun copyEntries :: "(string \<times> 'v) list \<Rightarrow> nat \<Rightarrow> 'v heap \<Rightarrow> 'v heap" where
  "copyEntries [] m h = h"
| "copyEntries ((k, v) # es) m h = copyEntries es m (mapassign h m k v)"

definition stripPasswords ::
  "string \<Rightarrow> string \<Rightarrow> 'v heap \<Rightarrow> nat option \<Rightarrow> ('v heap \<times> nat) outcome" where
  "stripPasswords schema version h original =
     (case NewDeploymentParameters schema version h of (h1, copy) \<Rightarrow>
      (case load h1 original of
        None \<Rightarrow> Panics
      | Some orig \<Rightarrow>
         (case make_map h1 of (h2, m) \<Rightarrow>
          let h3 = store h2 copy (\<lambda>c. c\<lparr>Parameters := Some m\<rparr>);
              h4 = store h3 copy (\<lambda>c. c\<lparr>ContentVersion := ContentVersion orig\<rparr>);
              h5 = store h4 copy (\<lambda>c. c\<lparr>Schema := Schema orig\<rparr>);
              h6 = copyEntries (range_of h5 (Parameters orig)) m h5;
              h7 = mapdelete h6 m ''databaseAdministratorLoginPassword'';
              h8 = mapdelete h7 m ''dockerRegistryServerPassword''
          in Returns (h8, copy))))"

text \<open>
  Reading a parameter set: \<open>params_of h p\<close> is the mapping held by the struct at \<open>p\<close>.
  \<open>valid h p\<close> says that \<open>p\<close> points to a struct of the store whose map, unless nil, is
  a map object of the store with each key once: what Go guarantees of a non-nil
  \<^verbatim>\<open>*DeploymentParameters\<close>.
\<close>

definition params_of :: "'v heap \<Rightarrow> nat \<Rightarrow> (string \<rightharpoonup> 'v)" where
  "params_of h p = map_of (range_of h (Parameters (structs h ! p)))"

definition valid :: "'v heap \<Rightarrow> nat \<Rightarrow> bool" where
  "valid h p \<longleftrightarrow> p < length (structs h) \<and>
     (case Parameters (structs h ! p) of None \<Rightarrow> True
      | Some a \<Rightarrow> a < length (maps h) \<and> distinct (map fst (maps h ! a)))"

text \<open>The entries of the copy's map, in terms of the entries visited (used in the proofs).\<close>

definition sanitized :: "(string \<times> 'v) list \<Rightarrow> (string \<times> 'v) list" where
  "sanitized es = AList.delete ''dockerRegistryServerPassword''
     (AList.delete ''databaseAdministratorLoginPassword''
        (fold (\<lambda>(k, v). AList.update k v) es []))"

text \<open>
  A store for the examples: one parameter set with a site name and both passwords, and
  one whose map is nil.
\<close>

definition heap0 :: "string heap" where
  "heap0 =
     \<lparr>structs = [\<lparr>Schema = ''https://schema'', ContentVersion = ''1.0.0.0'', Parameters = Some 0\<rparr>,
                 \<lparr>Schema = [], ContentVersion = [], Parameters = None\<rparr>],
      maps = [[(''name'', ''site''), (''dockerRegistryServerPassword'', ''hunter2''),
               (''databaseAdministratorLoginPassword'', ''swordfish'')]]\<rparr>"

section \<open>Configuration (\<^verbatim>\<open>viper\<close>)\<close>

text \<open>
  \<^verbatim>\<open>provisionConfig\<close> and \<^verbatim>\<open>rootConfig\<close> are \<^verbatim>\<open>viper\<close> registries. What the code
  uses of one is modelled by three layers, looked up in this order: the values put by
  \<^verbatim>\<open>Set\<close>, the values bound from flags and the environment, and the values put by
  \<^verbatim>\<open>SetDefault\<close>. A value is a string or a boolean (the dynamic types the code
  stores). \<^verbatim>\<open>GetString\<close> and \<^verbatim>\<open>GetBool\<close> convert as the library's \<^verbatim>\<open>cast\<close>
  package does: a missing key reads as the empty string and as false, a boolean prints
  as \<^verbatim>\<open>true\<close> or \<^verbatim>\<open>false\<close>, a string is parsed by \<^verbatim>\<open>strconv.ParseBool\<close>, whose
  failure reads as false.
\<close>

datatype val = S string | B bool

record viper =
  overrides :: "string \<rightharpoonup> val"
  bound :: "string \<rightharpoonup> val"
  defaults :: "string \<rightharpoonup> val"

definition Get :: "viper \<Rightarrow> string \<Rightarrow> val option" where
  "Get v k =
     (case overrides v k of Some x \<Rightarrow> Some x
      | None \<Rightarrow> (case bound v k of Some x \<Rightarrow> Some x | None \<Rightarrow> defaults v k))"

definition ParseBool :: "string \<Rightarrow> bool" where
  "ParseBool s = (s \<in> {''1'', ''t'', ''T'', ''TRUE'', ''true'', ''True''})"

definition GetString :: "viper \<Rightarrow> string \<Rightarrow> string" where
  "GetString v k =
     (case Get v k of None \<Rightarrow> []
      | Some (S s) \<Rightarrow> s
      | Some (B b) \<Rightarrow> if b then ''true'' else ''false'')"

definition GetBool :: "viper \<Rightarrow> string \<Rightarrow> bool" where
  "GetBool v k =
     (case Get v k of None \<Rightarrow> False
      | Some (S s) \<Rightarrow> ParseBool s
      | Some (B b) \<Rightarrow> b)"

definition Set :: "viper \<Rightarrow> string \<Rightarrow> val \<Rightarrow> viper" where
  "Set v k x = v\<lparr>overrides := (overrides v)(k \<mapsto> x)\<rparr>"

definition SetDefault :: "viper \<Rightarrow> string \<Rightarrow> val \<Rightarrow> viper" where
  "SetDefault v k x = v\<lparr>defaults := (defaults v)(k \<mapsto> x)\<rparr>"

text \<open>The verb \<^verbatim>\<open>%v\<close> on an error.\<close>

fun Error :: "error \<Rightarrow> string" where
  "Error (Err m) = m"

text \<open>
  The constants of \<^verbatim>\<open>provision.go\<close> that the modelled functions use.
\<close>

definition SubscriptionName :: string where "SubscriptionName = ''subscription-id''"
definition ClientIDName :: string where "ClientIDName = ''client-id''"
definition ClientSecretName :: string where "ClientSecretName = ''client-secret''"
definition TenantIDName :: string where "TenantIDName = ''tenant-id''"
definition DeviceAuthName :: string where "DeviceAuthName = ''use-device-auth''"
definition VerboseName :: string where "VerboseName = ''verbose''"
definition SkipTemplateCacheName :: string where "SkipTemplateCacheName = ''skip-template-cache''"
definition TemplateName :: string where "TemplateName = ''rm-template''"
definition TemplateDefault :: string where "TemplateDefault = ''./azuredeploy.json''"
definition TemplateParametersName :: string where "TemplateParametersName = ''rm-template-params''"
definition TemplateParametersDefault :: string where
  "TemplateParametersDefault = ''./azuredeploy.parameters.json''"
definition LocationName :: string where "LocationName = ''location''"
definition LocationDefault :: string where "LocationDefault = ''centralus''"
definition LocationDefaultText :: string where
  "LocationDefaultText = ''<resource group location>, or '' @ LocationDefault"
definition SiteName :: string where "SiteName = ''site-name''"
definition siteDefaultPrefix :: string where "siteDefaultPrefix = ''buffalo-app''"
definition siteDefaultMessage :: string where
  "siteDefaultMessage = siteDefaultPrefix @ ''-<random>''"
definition ResoureGroupName :: string where "ResoureGroupName = ''resource-group''"
definition ResourceGroupDefault :: string where "ResourceGroupDefault = ''<site name>''"
definition EnvironmentName :: string where "EnvironmentName = ''az-env''"
definition DatabaseTypeName :: string where "DatabaseTypeName = ''db-type''"
definition DatabaseNameName :: string where "DatabaseNameName = ''db-name''"
definition DatabaseAdminName :: string where "DatabaseAdminName = ''db-admin''"
definition ImageName :: string where "ImageName = ''image''"
definition DockerRegistryAccessName :: string where
  "DockerRegistryAccessName = ''docker-registry-access''"
definition DockerRegistryURLName :: string where "DockerRegistryURLName = ''docker-registry-url''"
definition DockerRegistryUsernameName :: string where
  "DockerRegistryUsernameName = ''docker-registry-username''"
definition deviceClientID :: string where
  "deviceClientID = ''04b07795-8ddb-461a-bbee-02f9e1bf7b46''"

section \<open>Program state\<close>

text \<open>
  \<open>Environment\<close> holds the two endpoints read of \<^verbatim>\<open>azure.Environment\<close>; \<open>Level\<close> is
  \<^verbatim>\<open>logrus.Level\<close>. Of a subscription and of a tenant description the code reads the
  identifier only, a \<^verbatim>\<open>*string\<close>: \<open>None\<close> is nil.
\<close>

record Environment =
  ActiveDirectoryEndpoint :: string
  ResourceManagerEndpoint :: string

datatype Level = PanicLevel | FatalLevel | ErrorLevel | WarnLevel | InfoLevel | DebugLevel

record Subscription =
  SubscriptionID :: "string option"

record TenantIDDescription =
  TenantID :: "string option"

text \<open>
  The package variables, with two records of what happened: \<open>calls\<close> lists the calls
  made into the authentication and management libraries and to \<^verbatim>\<open>fmt.Println\<close>, in
  order, each with the tenant or client it was made for; \<open>scanned\<close> lists the pairs of
  tenant and subscription that the loops of \<^verbatim>\<open>getTenant\<close> have compared with the
  target. \<open>memory\<close> is the store that \<open>deployParams\<close> points into.
\<close>

datatype call =
    NewOAuthConfigCall string
  | InitiateDeviceAuthCall
  | WaitForUserCompletionCall
  | NewServicePrincipalTokenCall string
  | ManualTokenCall string
  | ListTenantsCall
  | ListSubscriptionsCall string
  | PrintlnCall string

record globals =
  provisionConfig :: viper
  rootConfig :: viper
  logLevel :: Level
  deployParams :: "nat option"
  environment :: Environment
  memory :: "val heap"
  calls :: "call list"
  scanned :: "(string \<times> Subscription) list"

text \<open>
  What \<^verbatim>\<open>provision.go\<close> uses and the sources do not hold is a parameter. \<open>package\<close>:
  the names of the log level setting and of its values, declared in another file of the
  package, and the two strings \<^verbatim>\<open>NewDeploymentParameters\<close> fills in. \<open>platform\<close>: the
  file system (\<^verbatim>\<open>os.Stat\<close>, \<^verbatim>\<open>os.Open\<close>, and the JSON decoder writing into the
  struct at an address of the store), the ten characters the random name generator
  yields, and \<^verbatim>\<open>azure.EnvironmentFromName\<close>, which returns an environment beside its
  error.
\<close>

record package =
  logOutputLevelName :: string
  logOutputLevelDebug :: string
  logOutputLevelInfo :: string
  logOutputLevelWarn :: string
  logOutputLevelError :: string
  logOutputLevelFatal :: string
  logOutputLevelPanic :: string
  schemaDefault :: string
  contentVersionDefault :: string

record 'f platform =
  Stat :: "string \<Rightarrow> error option"
  Open :: "string \<Rightarrow> error + 'f"
  Decode :: "'f \<Rightarrow> val heap \<Rightarrow> nat \<Rightarrow> val heap \<times> error option"
  Generate :: string
  EnvironmentFromName :: "string \<Rightarrow> Environment \<times> error option"

section \<open>Validating the arguments (\<^verbatim>\<open>provisionCmd.Args\<close>)\<close>

text \<open>
  \<^verbatim>\<open>setDefaults\<close> is eight statements of one shape,
  \<^verbatim>\<open>if v, ok := params.Parameters[key]; ok { conf.SetDefault(name, v.Value) }\<close>;
  \<open>setDefault_from\<close> is that statement and \<open>setDefaults\<close> runs it on the eight pairs in
  the order of the source.
\<close>

definition setDefault_from ::
  "val heap \<Rightarrow> nat option \<Rightarrow> string \<Rightarrow> string \<Rightarrow> viper \<Rightarrow> viper outcome" where
  "setDefault_from h params key name conf =
     (case load h params of
        None \<Rightarrow> Panics
      | Some s \<Rightarrow>
          (case map_of (range_of h (Parameters s)) key of
             Some v \<Rightarrow> Returns (SetDefault conf name v)
           | None \<Rightarrow> Returns conf))"

fun setDefaults_each ::
  "val heap \<Rightarrow> nat option \<Rightarrow> (string \<times> string) list \<Rightarrow> viper \<Rightarrow> viper outcome" where
  "setDefaults_each h params [] conf = Returns conf"
| "setDefaults_each h params ((key, name) # rest) conf =
     (case setDefault_from h params key name conf of
        Panics \<Rightarrow> Panics
      | Returns conf' \<Rightarrow> setDefaults_each h params rest conf')"

definition setDefaults :: "val heap \<Rightarrow> viper \<Rightarrow> nat option \<Rightarrow> viper outcome" where
  "setDefaults h conf params =
     setDefaults_each h params
       [(''name'', SiteName), (''database'', DatabaseTypeName),
        (''databaseName'', DatabaseNameName), (''imageName'', ImageName),
        (''databaseAdministratorLogin'', DatabaseAdminName),
        (''dockerRegistryAccess'', DockerRegistryAccessName),
        (''dockerRegistryServerURL'', DockerRegistryURLName),
        (''dockerRegistryServerUsername'', DockerRegistryUsernameName)] conf"

text \<open>
  \<^verbatim>\<open>loadFromParameterFile\<close> ignores its argument: it looks for the default file and opens
  the file that the configuration names. A failure to open is dropped and the fresh
  parameter set returned.
\<close>

definition loadFromParameterFile ::
  "'f platform \<Rightarrow> package \<Rightarrow> globals \<Rightarrow> string \<Rightarrow> globals \<times> (error + nat option)" where
  "loadFromParameterFile pf pk g paramFile =
     (case NewDeploymentParameters (schemaDefault pk) (contentVersionDefault pk) (memory g) of
        (h1, loaded) \<Rightarrow>
          (case Stat pf TemplateParametersDefault of
             Some err \<Rightarrow> (g\<lparr>memory := h1\<rparr>, Inl err)
           | None \<Rightarrow>
               let conf = SetDefault (provisionConfig g) TemplateParametersName
                            (S TemplateParametersDefault)
               in (case Open pf (GetString conf TemplateParametersName) of
                     Inl _ \<Rightarrow> (g\<lparr>memory := h1, provisionConfig := conf\<rparr>, Inr (Some loaded))
                   | Inr handle \<Rightarrow>
                       (case Decode pf handle h1 loaded of
                          (h2, Some err) \<Rightarrow> (g\<lparr>memory := h2, provisionConfig := conf\<rparr>, Inl err)
                        | (h2, None) \<Rightarrow>
                            (g\<lparr>memory := h2, provisionConfig := conf\<rparr>, Inr (Some loaded))))))"

text \<open>
  \<^verbatim>\<open>Args\<close>, in three parts in the order of the source: \<open>Args\<close> is the check of the
  subscription and of the credentials, \<open>Args_settings\<close> the statements from the log
  level to the parameter file, \<open>Args_names\<close> those from the site name to the
  environment. \<open>parseLevel\<close> is the \<^verbatim>\<open>switch\<close> on the log level; \<open>None\<close> is its
  \<^verbatim>\<open>default\<close> branch.
\<close>

definition parseLevel :: "package \<Rightarrow> string \<Rightarrow> Level option" where
  "parseLevel pk rawLevel =
     (if rawLevel = logOutputLevelDebug pk then Some DebugLevel
      else if rawLevel = logOutputLevelInfo pk then Some InfoLevel
      else if rawLevel = logOutputLevelWarn pk then Some WarnLevel
      else if rawLevel = logOutputLevelError pk then Some ErrorLevel
      else if rawLevel = logOutputLevelFatal pk then Some FatalLevel
      else if rawLevel = logOutputLevelPanic pk then Some PanicLevel
      else None)"

definition Args_names :: "'f platform \<Rightarrow> globals \<Rightarrow> (globals \<times> error option) outcome" where
  "Args_names pf g =
     (let sn = GetString (provisionConfig g) SiteName;
          g1 = (if sn = [] \<or> sn = siteDefaultMessage
                then g\<lparr>provisionConfig :=
                         Set (provisionConfig g) SiteName (S (siteDefaultPrefix @ ''-'' @ Generate pf))\<rparr>
                else g);
          rgn = GetString (provisionConfig g1) ResoureGroupName;
          g2 = (if rgn = [] \<or> rgn = ResourceGroupDefault
                then g1\<lparr>provisionConfig :=
                          Set (provisionConfig g1) ResoureGroupName
                            (S (GetString (provisionConfig g1) SiteName))\<rparr>
                else g1)
      in case EnvironmentFromName pf (GetString (provisionConfig g2) EnvironmentName) of
           (env, err) \<Rightarrow> Returns (g2\<lparr>environment := env\<rparr>, err))"

definition Args_settings ::
  "'f platform \<Rightarrow> package \<Rightarrow> globals \<Rightarrow> (globals \<times> error option) outcome" where
  "Args_settings pf pk g =
     (let g1 = (if GetBool (rootConfig g) VerboseName
                then g\<lparr>rootConfig :=
                         Set (rootConfig g) (logOutputLevelName pk) (S (logOutputLevelDebug pk))\<rparr>
                else g);
          rawLevel = GetString (rootConfig g1) (logOutputLevelName pk)
      in case (if rawLevel = [] then Some (logLevel g1) else parseLevel pk rawLevel) of
           None \<Rightarrow>
             Returns (g1, Some (Err (''unrecognized '' @ logOutputLevelName pk @ '': '' @ rawLevel)))
         | Some level \<Rightarrow>
             (let g2 = g1\<lparr>logLevel := level\<rparr>;
                  g3 = (if GetString (provisionConfig g2) TemplateName = TemplateDefault
                        then g2\<lparr>provisionConfig :=
                                  Set (provisionConfig g2) SkipTemplateCacheName (B True)\<rparr>
                        else g2);
                  g4 = (if GetString (provisionConfig g3) LocationName = LocationDefaultText
                        then g3\<lparr>provisionConfig :=
                                  SetDefault (provisionConfig g3) LocationName (S LocationDefault)\<rparr>
                        else g3);
                  paramFile = GetString (provisionConfig g4) TemplateParametersName
              in case loadFromParameterFile pf pk g4 paramFile of
                   (g5, Inr p) \<Rightarrow>
                     (case setDefaults (memory g5) (provisionConfig g5) p of
                        Panics \<Rightarrow> Panics
                      | Returns conf \<Rightarrow>
                          Args_names pf (g5\<lparr>provisionConfig := conf, deployParams := p\<rparr>))
                 | (g5, Inl err) \<Rightarrow>
                     if paramFile \<noteq> TemplateParametersDefault
                     then Returns (g5, Some (Err (''unable to load parameters file: '' @ Error err)))
                     else Args_names pf g5))"

definition Args :: "'f platform \<Rightarrow> package \<Rightarrow> globals \<Rightarrow> (globals \<times> error option) outcome" where
  "Args pf pk g =
     (if GetString (provisionConfig g) SubscriptionName = []
      then Returns (g, Some (Err (''no value found for '' @ quoted SubscriptionName)))
      else
        (let hasClientID = (GetString (provisionConfig g) ClientIDName \<noteq> []);
             hasClientSecret = (GetString (provisionConfig g) ClientSecretName \<noteq> [])
         in if \<not> hasClientSecret \<and> \<not> hasClientID
            then Args_settings pf pk
                   (g\<lparr>provisionConfig := Set (provisionConfig g) DeviceAuthName (B True)\<rparr>)
            else if (hasClientID \<or> hasClientSecret) \<and> \<not> (hasClientID \<and> hasClientSecret)
            then Returns (g, Some (Err
                   ''--client-id and --client-secret must be specified together or not at all''))
            else Args_settings pf pk g))"

section \<open>Authentication (\<^verbatim>\<open>getAuthorizer\<close>, \<^verbatim>\<open>getTenant\<close>)\<close>

text \<open>
  Of \<^verbatim>\<open>adal.Token\<close> the two token strings, of \<^verbatim>\<open>adal.DeviceCode\<close> the message (a
  \<^verbatim>\<open>*string\<close>). An authorizer is \<^verbatim>\<open>autorest.NewBearerAuthorizer\<close> of a token provider:
  the token of the device flow or a service principal token, of a type \<open>'spt\<close> left
  open.
\<close>

record Token =
  AccessToken :: string
  RefreshToken :: string

record DeviceCode =
  Message :: "string option"

datatype 'spt provider = DeviceToken Token | ServicePrincipal 'spt

datatype 'spt authorizer = BearerAuthorizer "'spt provider"

text \<open>
  A paginated list as the loops use it. \<open>Item v rest\<close>: \<^verbatim>\<open>NotDone()\<close> holds, \<^verbatim>\<open>Value()\<close>
  is \<open>v\<close> and \<^verbatim>\<open>Next()\<close> leads to \<open>rest\<close>. \<open>Done\<close>: \<^verbatim>\<open>NotDone()\<close> does not hold.
  \<open>Failed err\<close>: the call that led here, \<^verbatim>\<open>ListComplete\<close> or \<^verbatim>\<open>Next\<close>, returned
  \<open>err\<close>.
\<close>

datatype 'a listing = Done | Failed error | Item 'a "'a listing"

text \<open>
  The library calls of the two functions. \<open>NewOAuthConfig\<close> takes the endpoint and the
  tenant; the token constructors take the configuration, the client, then (for a
  service principal) the secret, the resource, and (from a manual token) the token; the
  two listings take the authorizer of their client. \<open>EqualFoldUnicode\<close> stands for what
  \<^verbatim>\<open>strings.EqualFold\<close> does from the first byte outside ASCII on, by the Unicode
  tables.
\<close>

record ('cfg, 'spt) adal =
  NewOAuthConfig :: "string \<Rightarrow> string \<Rightarrow> error + 'cfg"
  InitiateDeviceAuth :: "'cfg \<Rightarrow> string \<Rightarrow> string \<Rightarrow> error + DeviceCode"
  WaitForUserCompletion :: "DeviceCode \<Rightarrow> error + Token"
  NewServicePrincipalToken :: "'cfg \<Rightarrow> string \<Rightarrow> string \<Rightarrow> string \<Rightarrow> error + 'spt"
  NewServicePrincipalTokenFromManualToken ::
    "'cfg \<Rightarrow> string \<Rightarrow> string \<Rightarrow> Token \<Rightarrow> error + 'spt"
  TenantsListComplete :: "'spt authorizer \<Rightarrow> TenantIDDescription listing"
  SubscriptionsListComplete :: "'spt authorizer \<Rightarrow> Subscription listing"
  EqualFoldUnicode :: "string \<Rightarrow> string \<Rightarrow> bool"

text \<open>
  \<^verbatim>\<open>strings.EqualFold\<close>: byte by byte while both bytes are ASCII, where two bytes agree
  when equal or when the smaller is an upper case letter and the larger is 32 above; at
  the end of either string the lengths decide.
\<close>

fun EqualFold :: "(string \<Rightarrow> string \<Rightarrow> bool) \<Rightarrow> string \<Rightarrow> string \<Rightarrow> bool" where
  "EqualFold uni (sr # s) (tr # t) =
     (if 128 \<le> (of_char sr :: nat) \<or> 128 \<le> (of_char tr :: nat) then uni (sr # s) (tr # t)
      else if tr = sr then EqualFold uni s t
      else (let lo = min (of_char sr) (of_char tr) :: nat;
                hi = max (of_char sr) (of_char tr) :: nat
            in if 65 \<le> lo \<and> lo \<le> 90 \<and> hi = lo + 32 then EqualFold uni s t else False))"
| "EqualFold uni s t = (length s = length t)"

text \<open>
  The inner loop of \<^verbatim>\<open>getTenant\<close>, over the subscriptions of one tenant. It ends in a
  match, on which the function returns, or it ends with the value of \<^verbatim>\<open>err\<close> in
  \<open>Ended\<close>. That \<^verbatim>\<open>err\<close> is the variable declared by \<^verbatim>\<open>currentConfig, err := ...\<close> in
  the body of the outer loop, not the \<^verbatim>\<open>err\<close> of the function, which the outer loop
  tests and the function returns.
\<close>

datatype inner = Match | Ended "error option"

fun subscriptionsLoop ::
  "(string \<Rightarrow> string \<Rightarrow> bool) \<Rightarrow> string \<Rightarrow> string \<Rightarrow> Subscription listing \<Rightarrow>
   (string \<times> Subscription) list \<Rightarrow> inner \<times> (string \<times> Subscription) list" where
  "subscriptionsLoop uni tenant subscription Done seen = (Ended None, seen)"
| "subscriptionsLoop uni tenant subscription (Failed err) seen = (Ended (Some err), seen)"
| "subscriptionsLoop uni tenant subscription (Item currentSub rest) seen =
     (if (case SubscriptionID currentSub of
            None \<Rightarrow> False
          | Some sid \<Rightarrow> EqualFold uni sid subscription)
      then (Match, seen @ [(tenant, currentSub)])
      else subscriptionsLoop uni tenant subscription rest (seen @ [(tenant, currentSub)]))"

text \<open>
  The outer loop, over the tenants, and \<^verbatim>\<open>getTenant\<close>. Dereferencing a nil tenant
  identifier panics. After the inner loop the body ends and the outer loop goes on
  with \<^verbatim>\<open>err = tenantList.Next()\<close>, whatever the inner loop's \<^verbatim>\<open>err\<close> was.
\<close>

fun tenantsLoop ::
  "('cfg, 'spt) adal \<Rightarrow> Token \<Rightarrow> string \<Rightarrow> TenantIDDescription listing \<Rightarrow> globals \<Rightarrow>
   (globals \<times> (error + string \<times> 'spt authorizer)) outcome" where
  "tenantsLoop lib common subscription Done g =
     Returns (g, Inl (Err (''unable to find subscription: '' @ subscription)))"
| "tenantsLoop lib common subscription (Failed err) g = Returns (g, Inl err)"
| "tenantsLoop lib common subscription (Item t rest) g =
     (case TenantID t of
        None \<Rightarrow> Panics
      | Some currentTenant \<Rightarrow>
          (case NewOAuthConfig lib (ActiveDirectoryEndpoint (environment g)) currentTenant of
             Inl err \<Rightarrow>
               Returns (g\<lparr>calls := calls g @ [NewOAuthConfigCall currentTenant]\<rparr>, Inl err)
           | Inr currentConfig \<Rightarrow>
               (case NewServicePrincipalTokenFromManualToken lib currentConfig deviceClientID
                       (ResourceManagerEndpoint (environment g))
                       \<lparr>AccessToken = [], RefreshToken = RefreshToken common\<rparr> of
                  Inl err \<Rightarrow>
                    Returns (g\<lparr>calls := calls g @ [NewOAuthConfigCall currentTenant,
                                                    ManualTokenCall currentTenant]\<rparr>, Inl err)
                | Inr currentAuth \<Rightarrow>
                    (case subscriptionsLoop (EqualFoldUnicode lib) currentTenant subscription
                            (SubscriptionsListComplete lib
                               (BearerAuthorizer (ServicePrincipal currentAuth)))
                            (scanned g) of
                       (Match, seen) \<Rightarrow>
                         Returns
                           (g\<lparr>calls := calls g @ [NewOAuthConfigCall currentTenant,
                                  ManualTokenCall currentTenant,
                                  ListSubscriptionsCall currentTenant],
                              scanned := seen,
                              provisionConfig :=
                                Set (provisionConfig g) TenantIDName (S currentTenant)\<rparr>,
                            Inr (currentTenant, BearerAuthorizer (ServicePrincipal currentAuth)))
                     | (Ended _, seen) \<Rightarrow>
                         tenantsLoop lib common subscription rest
                           (g\<lparr>calls := calls g @ [NewOAuthConfigCall currentTenant,
                                  ManualTokenCall currentTenant,
                                  ListSubscriptionsCall currentTenant],
                              scanned := seen\<rparr>)))))"

definition getTenant ::
  "('cfg, 'spt) adal \<Rightarrow> globals \<Rightarrow> Token \<Rightarrow> string \<Rightarrow>
   (globals \<times> (error + string \<times> 'spt authorizer)) outcome" where
  "getTenant lib g common subscription =
     tenantsLoop lib common subscription
       (TenantsListComplete lib (BearerAuthorizer (DeviceToken common)))
       (g\<lparr>calls := calls g @ [ListTenantsCall]\<rparr>)"

text \<open>
  \<^verbatim>\<open>getAuthorizer\<close>. \<open>tenantID0\<close> is the argument and \<open>tenantID\<close> the variable after the
  first statement, which replaces an empty tenant by the placeholder. Dereferencing a
  nil message of the device code panics.
\<close>

definition commonTenant :: string where
  "commonTenant = ''common''"

definition getAuthorizer ::
  "('cfg, 'spt) adal \<Rightarrow> globals \<Rightarrow> string \<Rightarrow> string \<Rightarrow> string \<Rightarrow> string \<Rightarrow>
   (globals \<times> (error + 'spt authorizer)) outcome" where
  "getAuthorizer lib g subscriptionID clientID clientSecret tenantID0 =
     (let tenantID = (if tenantID0 = [] then commonTenant else tenantID0);
          g1 = g\<lparr>calls := calls g @ [NewOAuthConfigCall tenantID]\<rparr>
      in case NewOAuthConfig lib (ActiveDirectoryEndpoint (environment g)) tenantID of
           Inl err \<Rightarrow> Returns (g1, Inl err)
         | Inr config \<Rightarrow>
             if GetBool (provisionConfig g) DeviceAuthName then
               (case InitiateDeviceAuth lib config deviceClientID
                       (ResourceManagerEndpoint (environment g)) of
                  Inl err \<Rightarrow> Returns (g1\<lparr>calls := calls g1 @ [InitiateDeviceAuthCall]\<rparr>, Inl err)
                | Inr code \<Rightarrow>
                    (case Message code of
                       None \<Rightarrow> Panics
                     | Some message \<Rightarrow>
                         (let g2 = g1\<lparr>calls := calls g1 @ [InitiateDeviceAuthCall,
                                      PrintlnCall message, WaitForUserCompletionCall]\<rparr>
                          in case WaitForUserCompletion lib code of
                               Inl err \<Rightarrow> Returns (g2, Inl err)
                             | Inr intermediate \<Rightarrow>
                                 if tenantID = commonTenant then
                                   (case getTenant lib g2 intermediate subscriptionID of
                                      Panics \<Rightarrow> Panics
                                    | Returns (g3, Inl err) \<Rightarrow> Returns (g3, Inl err)
                                    | Returns (g3, Inr (tenant, final)) \<Rightarrow>
                                        Returns (g3, Inr final))
                                 else Returns
                                   (g2, Inr (BearerAuthorizer (DeviceToken intermediate))))))
             else if tenantID = commonTenant then
               Returns (g1, Inl (Err
                 ''tenant inference unsupported with Service Principal authentication''))
             else
               (case NewServicePrincipalToken lib config clientID clientSecret
                       (ResourceManagerEndpoint (environment g)) of
                  Inl err \<Rightarrow>
                    Returns (g1\<lparr>calls := calls g1 @ [NewServicePrincipalTokenCall clientID]\<rparr>,
                             Inl err)
                | Inr auth \<Rightarrow>
                    Returns (g1\<lparr>calls := calls g1 @ [NewServicePrincipalTokenCall clientID]\<rparr>,
                             Inr (BearerAuthorizer (ServicePrincipal auth)))))"

section \<open>Specification of the tenant scan\<close>

text \<open>
  What the spec says of the scan, to compare \<^verbatim>\<open>getTenant\<close> with: \<open>of_list\<close> is a
  listing without failure, \<open>cross\<close> the pairs of tenant and subscription in the order
  of the listings, \<open>matches\<close> the comparison with the target, \<open>scan_result\<close> the first
  pair that matches and \<open>scan_trace\<close> the pairs up to and including it, or all of
  them when none matches. \<open>lower\<close> maps an upper case ASCII letter to its lower case
  letter, and \<open>ascii\<close> holds of a string of ASCII bytes.
\<close>

fun of_list :: "'a list \<Rightarrow> 'a listing" where
  "of_list [] = Done"
| "of_list (x # xs) = Item x (of_list xs)"

definition matches :: "(string \<Rightarrow> string \<Rightarrow> bool) \<Rightarrow> string \<Rightarrow> Subscription \<Rightarrow> bool" where
  "matches uni subscription sub =
     (case SubscriptionID sub of None \<Rightarrow> False | Some sid \<Rightarrow> EqualFold uni sid subscription)"

definition cross :: "string list \<Rightarrow> (string \<Rightarrow> Subscription list) \<Rightarrow> (string \<times> Subscription) list" where
  "cross tids subs = concat (map (\<lambda>tid. map (Pair tid) (subs tid)) tids)"

definition tenant :: "string \<Rightarrow> TenantIDDescription" where
  "tenant tid = \<lparr>TenantID = Some tid\<rparr>"

definition scan_result ::
  "(string \<Rightarrow> string \<Rightarrow> bool) \<Rightarrow> string \<Rightarrow> (string \<times> Subscription) list \<Rightarrow>
   (string \<times> Subscription) option" where
  "scan_result uni subscription pairs = find (\<lambda>p. matches uni subscription (snd p)) pairs"

definition scan_trace ::
  "(string \<Rightarrow> string \<Rightarrow> bool) \<Rightarrow> string \<Rightarrow> (string \<times> Subscription) list \<Rightarrow>
   (string \<times> Subscription) list" where
  "scan_trace uni subscription pairs =
     (case scan_result uni subscription pairs of
        None \<Rightarrow> pairs
      | Some hit \<Rightarrow> takeWhile (\<lambda>p. \<not> matches uni subscription (snd p)) pairs @ [hit])"

definition lower :: "char \<Rightarrow> char" where
  "lower c = (if 65 \<le> (of_char c :: nat) \<and> (of_char c :: nat) \<le> 90
              then char_of (of_char c + 32 :: nat) else c)"

definition ascii :: "string \<Rightarrow> bool" where
  "ascii s = list_all (\<lambda>c. (of_char c :: nat) < 128) s"

section \<open>Example states and libraries\<close>

text \<open>
  \<open>viper_of\<close> is a registry with the given bound values; \<open>globals0\<close> the state of a
  run with no setting; \<open>platform0\<close> a machine without files; \<open>directory ts\<close> a
  directory service whose tenants are the keys of \<open>ts\<close>, each with its listing of
  subscriptions, and whose calls all succeed.
\<close>

definition viper_of :: "(string \<times> val) list \<Rightarrow> viper" where
  "viper_of kvs = \<lparr>overrides = Map.empty, bound = map_of kvs, defaults = Map.empty\<rparr>"

definition globals0 :: globals where
  "globals0 =
     \<lparr>provisionConfig = viper_of [], rootConfig = viper_of [], logLevel = InfoLevel,
      deployParams = None,
      environment = \<lparr>ActiveDirectoryEndpoint = ''https://login.microsoftonline.com/'',
                     ResourceManagerEndpoint = ''https://management.azure.com/''\<rparr>,
      memory = \<lparr>structs = [], maps = []\<rparr>, calls = [], scanned = []\<rparr>"

definition platform0 :: "unit platform" where
  "platform0 =
     \<lparr>Stat = (\<lambda>_. Some (Err ''no such file or directory'')),
      Open = (\<lambda>_. Inl (Err ''no such file or directory'')),
      Decode = (\<lambda>_ h _. (h, None)),
      Generate = ''0123456789'',
      EnvironmentFromName = (\<lambda>_. (\<lparr>ActiveDirectoryEndpoint = [], ResourceManagerEndpoint = []\<rparr>,
                                    Some (Err ''no cloud environment matching the name'')))\<rparr>"

definition package0 :: package where
  "package0 =
     \<lparr>logOutputLevelName = ''log-level'', logOutputLevelDebug = ''debug'',
      logOutputLevelInfo = ''info'', logOutputLevelWarn = ''warn'',
      logOutputLevelError = ''error'', logOutputLevelFatal = ''fatal'',
      logOutputLevelPanic = ''panic'', schemaDefault = [], contentVersionDefault = []\<rparr>"

definition directory :: "(string \<times> Subscription listing) list \<Rightarrow> (string, string) adal" where
  "directory ts =
     \<lparr>NewOAuthConfig = (\<lambda>endpoint tid. Inr tid),
      InitiateDeviceAuth = (\<lambda>_ _ _. Inr \<lparr>Message = Some ''enter the code''\<rparr>),
      WaitForUserCompletion = (\<lambda>_. Inr \<lparr>AccessToken = ''access'', RefreshToken = ''refresh''\<rparr>),
      NewServicePrincipalToken = (\<lambda>cfg _ _ _. Inr cfg),
      NewServicePrincipalTokenFromManualToken = (\<lambda>cfg _ _ _. Inr cfg),
      TenantsListComplete = (\<lambda>_. of_list (map (\<lambda>p. tenant (fst p)) ts)),
      SubscriptionsListComplete = (\<lambda>a. case a of
          BearerAuthorizer (ServicePrincipal tid) \<Rightarrow>
            (case map_of ts tid of Some l \<Rightarrow> l | None \<Rightarrow> Done)
        | BearerAuthorizer (DeviceToken _) \<Rightarrow> Done),
      EqualFoldUnicode = (\<lambda>s t. s = t)\<rparr>"

definition token0 :: Token where
  "token0 = \<lparr>AccessToken = ''access'', RefreshToken = ''refresh''\<rparr>"

definition subscription_with :: "string \<Rightarrow> Subscription" where
  "subscription_with sid = \<lparr>SubscriptionID = Some sid\<rparr>"

definition directory0 :: "(string, string) adal" where
  "directory0 =
     directory [(''t1'', of_list [subscription_with ''a'', subscription_with ''b'']),
                (''t2'', of_list [subscription_with ''C2'', subscription_with ''d'']),
                (''t3'', of_list [subscription_with ''c2''])]"

definition subscriptions0 :: "string \<Rightarrow> Subscription list" where
  "subscriptions0 tid =
     (if tid = ''t1'' then [subscription_with ''a'', subscription_with ''b'']
      else if tid = ''t2'' then [subscription_with ''C2'', subscription_with ''d'']
      else [subscription_with ''c2''])"

section \<open>Properties of the template download\<close>

lemmas status_tables = acceptedCodes_def redirectCodes_def temporaryFailureCodes_def

lemmas example_server =
  DefaultClient_def scripted_def site_def answer_def io0_def followedCodes_def
  maxRedirects_def maxRetries_def itoa_def

text \<open>One transient answer: the loop goes on at the same URL and depth, one attempt later.\<close>

lemma attempts_transient_step:
  assumes "attempt < maxRetries" and "NewRequest h src = None"
    and "ClientDo h (length (requested s)) src = Inr r"
    and "StatusCode r \<in> temporaryFailureCodes"
  shows "attempts h s src depth attempt =
           attempts h (s\<lparr>requested := requested s @ [src]\<rparr>) src depth (attempt + 1)"
  using assms by (auto simp: status_tables)

text \<open>
  A redirect status returned by \<^verbatim>\<open>Do\<close>: the closure takes the \<^verbatim>\<open>Location\<close> header as the
  next hop, one level deeper.
\<close>

lemma attempts_redirect_step:
  assumes "attempt < maxRetries" and "NewRequest h src = None"
    and "ClientDo h (length (requested s)) src = Inr r"
    and "StatusCode r \<in> redirectCodes"
  shows "attempts h s src depth attempt =
           download h (s\<lparr>requested := requested s @ [src]\<rparr>) (LocationHeader r) (depth + 1)"
  using assms by (auto simp: status_tables)

lemma download_too_deep:
  "maxRedirects < depth \<Longrightarrow> download h s src depth = (s, Some (Err ''too many redirects''))"
  by simp

lemma attempts_all_transient:
  assumes "NewRequest h src = None"
    and "n = maxRetries - a" and "a \<le> maxRetries"
    and "\<forall>k<n. \<exists>r. ClientDo h (length (requested s) + k) src = Inr r
            \<and> StatusCode r \<in> temporaryFailureCodes"
  shows "attempts h s src depth a =
           (s\<lparr>requested := requested s @ replicate n src\<rparr>, Some (Err ''too many attempts''))"
  using assms
proof (induction n arbitrary: a s)
  case 0
  then have "a = maxRetries" by simp
  then show ?case by simp
next
  case (Suc n)
  from Suc.prems have lt: "a < maxRetries" by simp
  from Suc.prems(4) obtain r where r: "ClientDo h (length (requested s)) src = Inr r"
      "StatusCode r \<in> temporaryFailureCodes"
    by (metis add.right_neutral zero_less_Suc)
  let ?s = "s\<lparr>requested := requested s @ [src]\<rparr>"
  have step: "attempts h s src depth a = attempts h ?s src depth (a + 1)"
    using attempts_transient_step [OF lt Suc.prems(1) r] .
  have "\<forall>k<n. \<exists>r. ClientDo h (length (requested ?s) + k) src = Inr r
            \<and> StatusCode r \<in> temporaryFailureCodes"
  proof (intro allI impI)
    fix k assume "k < n"
    then have "Suc k < Suc n" by simp
    with Suc.prems(4) have "\<exists>r. ClientDo h (length (requested s) + Suc k) src = Inr r
            \<and> StatusCode r \<in> temporaryFailureCodes" by blast
    then show "\<exists>r. ClientDo h (length (requested ?s) + k) src = Inr r
            \<and> StatusCode r \<in> temporaryFailureCodes" by simp
  qed
  moreover have "n = maxRetries - (a + 1)" "a + 1 \<le> maxRetries"
    using Suc.prems lt by simp_all
  ultimately have "attempts h ?s src depth (a + 1) =
      (?s\<lparr>requested := requested ?s @ replicate n src\<rparr>, Some (Err ''too many attempts''))"
    using Suc.IH [of "a + 1" ?s] Suc.prems(1) by blast
  with step show ?case by (simp add: replicate_append_same)
qed

text \<open>
  C1 (as amended). The transient table is 408, 429 and 504. At any hop the download
  enters (depth at most \<open>maxRedirects\<close>), when the URL parses and each of the next
  \<open>maxRetries = 3\<close> requests is answered with a status of that table, the download sends
  exactly three requests, all to the same URL, writes nothing, follows no redirect and
  fails with \<^verbatim>\<open>too many attempts\<close>.
\<close>

theorem transient_retries_exhausted:
  assumes "depth \<le> maxRedirects" and "NewRequest h src = None"
    and "\<forall>k<maxRetries. \<exists>r. ClientDo h (length (requested s) + k) src = Inr r
            \<and> StatusCode r \<in> temporaryFailureCodes"
  shows "temporaryFailureCodes = {408, 429, 504} \<and> maxRetries = 3
     \<and> download h s src depth =
         (s\<lparr>requested := requested s @ replicate maxRetries src\<rparr>,
          Some (Err ''too many attempts''))"
proof -
  have "attempts h s src depth 0 =
         (s\<lparr>requested := requested s @ replicate maxRetries src\<rparr>,
          Some (Err ''too many attempts''))"
    using attempts_all_transient [OF assms(2), of maxRetries 0 s depth] assms(3) by simp
  with assms(1) show ?thesis
    by (auto simp: temporaryFailureCodes_def maxRetries_def)
qed

theorem transient_retries_exhausted_witness:
  "download (DefaultClient (scripted [answer 429 [] [], answer 408 [] [], answer 504 [] []]))
       io0 ''https://t'' 1
     = (\<lparr>dest = [], requested = [''https://t'', ''https://t'', ''https://t'']\<rparr>,
        Some (Err ''too many attempts''))"
proof -
  let ?h = "DefaultClient (scripted [answer 429 [] [], answer 408 [] [], answer 504 [] []])"
  have d: "(1::nat) \<le> maxRedirects" by (simp add: maxRedirects_def)
  have n: "NewRequest ?h ''https://t'' = None" by (simp add: DefaultClient_def)
  have t: "\<forall>k<maxRetries. \<exists>r. ClientDo ?h (length (requested io0) + k) ''https://t'' = Inr r
            \<and> StatusCode r \<in> temporaryFailureCodes"
    by (simp add: example_server status_tables less_Suc_eq numeral_3_eq_3 nth_Cons')
  from transient_retries_exhausted [OF d n t] show ?thesis
    by (simp add: io0_def maxRetries_def numeral_3_eq_3)
qed

text \<open>
  C1 as stated fails at 502, which is not in the table: the first 502 ends the download
  with \<^verbatim>\<open>unexpected status code: 502\<close> after a single request.
\<close>

theorem bad_gateway_not_retried:
  "(502::int) \<in> {408, 429, 502, 504}
   \<and> downloadTemplate
       (DefaultClient (scripted [answer 502 [] [], answer 502 [] [], answer 502 [] []])) io0
       ''https://t''
     = (\<lparr>dest = [], requested = [''https://t'']\<rparr>,
        Some (Err ''unexpected status code: 502''))"
  by (simp add: downloadTemplate_def example_server status_tables)

text \<open>
  What \<^verbatim>\<open>Do\<close> returns is never a redirect that it could have followed: a redirect
  status reaches the closure only without a \<^verbatim>\<open>Location\<close>.
\<close>

lemma follow_returns_no_location:
  "follow srv n url = Inr r \<Longrightarrow> StatusCode r \<in> followedCodes \<Longrightarrow> LocationHeader r = []"
proof (induction srv n url rule: follow.induct)
  case (1 srv n url)
  show ?case
  proof (cases "srv url")
    case (Inl e)
    with "1.prems" show ?thesis by simp
  next
    case (Inr r')
    show ?thesis
    proof (cases "StatusCode r' \<in> followedCodes \<and> LocationHeader r' \<noteq> []")
      case True
      with Inr "1.prems" have more: "\<not> n \<le> 1"
        and "follow srv (n - 1) (LocationHeader r') = Inr r"
        by (auto split: if_splits)
      with "1.IH" [OF Inr True more] "1.prems"(2) show ?thesis by simp
    next
      case False
      with Inr "1.prems" show ?thesis by auto
    qed
  qed
qed

text \<open>
  C3 (evaluation at the failing input). The server answers six redirects in a row, each
  with its \<^verbatim>\<open>Location\<close>, and the seventh request with 200. \<^verbatim>\<open>Do\<close> follows all six
  inside the closure's first call, so the closure sees the 200 at depth 1, copies the
  body and returns no error: the depth never counts these redirects and
  \<^verbatim>\<open>too many redirects\<close> is not returned, although more than \<open>maxRedirects = 5\<close>
  redirects were followed.
\<close>

theorem redirects_followed_by_client:
  "downloadTemplate
     (DefaultClient (site
        [(''https://t/0'', answer 302 ''https://t/1'' []),
         (''https://t/1'', answer 301 ''https://t/2'' []),
         (''https://t/2'', answer 303 ''https://t/3'' []),
         (''https://t/3'', answer 307 ''https://t/4'' []),
         (''https://t/4'', answer 308 ''https://t/5'' []),
         (''https://t/5'', answer 302 ''https://t/6'' []),
         (''https://t/6'', answer 200 [] ''body'')]))
     io0 ''https://t/0''
   = (\<lparr>dest = ''body'', requested = [''https://t/0'']\<rparr>, None)"
  by (simp add: downloadTemplate_def example_server status_tables)

text \<open>
  A server that redirects for ever is stopped by the client after ten requests, with
  the client's error.
\<close>

lemma redirect_loop_stopped_by_client:
  "downloadTemplate
     (DefaultClient (site [(''https://t/0'', answer 302 ''https://t/0'' [])])) io0 ''https://t/0''
   = (\<lparr>dest = [], requested = [''https://t/0'']\<rparr>,
      Some (Err (''Get '' @ quoted ''https://t/0'' @ '': stopped after 10 redirects'')))"
  by (simp add: downloadTemplate_def example_server status_tables)

text \<open>
  C4 (as amended). The accepted table holds 200 only. When the URL parses and the answer
  is 200, the body's bytes are appended to the destination and the download returns what
  the copy returns: no error when the body reads without one. In particular a 302 whose
  \<^verbatim>\<open>Location\<close> parses and is answered with 200 yields that second body.
\<close>

theorem ok_response_copied:
  assumes "depth \<le> maxRedirects" and "NewRequest h src = None"
    and "ClientDo h (length (requested s)) src = Inr r"
  shows "acceptedCodes = {200}
     \<and> (StatusCode r = 200 \<longrightarrow>
          download h s src depth =
            (s\<lparr>requested := requested s @ [src], dest := dest s @ Body r\<rparr>, BodyErr r))
     \<and> (\<forall>r'. StatusCode r = 302 \<and> NewRequest h (LocationHeader r) = None
            \<and> ClientDo h (length (requested s) + 1) (LocationHeader r) = Inr r'
            \<and> StatusCode r' = 200 \<longrightarrow>
          downloadTemplate h s src =
            (s\<lparr>requested := requested s @ [src, LocationHeader r], dest := dest s @ Body r'\<rparr>,
             BodyErr r'))"
  using assms
  by (auto simp: downloadTemplate_def status_tables maxRedirects_def maxRetries_def)

theorem ok_response_copied_witness:
  "downloadTemplate
     (DefaultClient (site [(''https://t'', answer 302 ''https://u'' []),
                           (''https://u'', answer 200 [] ''{}'')]))
     io0 ''https://t''
   = (\<lparr>dest = ''{}'', requested = [''https://t'']\<rparr>, None)"
proof -
  let ?h = "DefaultClient (site [(''https://t'', answer 302 ''https://u'' []),
                                 (''https://u'', answer 200 [] ''{}'')])"
  have d: "(1::nat) \<le> maxRedirects" by (simp add: maxRedirects_def)
  have n: "NewRequest ?h ''https://t'' = None" by (simp add: DefaultClient_def)
  have r: "ClientDo ?h (length (requested io0)) ''https://t'' = Inr (answer 200 [] ''{}'')"
    by (simp add: DefaultClient_def site_def answer_def io0_def followedCodes_def)
  from ok_response_copied [OF d n r] show ?thesis
    by (simp add: downloadTemplate_def answer_def io0_def)
qed

text \<open>C4 as stated fails at 204, a 2xx status outside the accepted table.\<close>

theorem no_content_not_accepted:
  "(200::int) \<le> 204 \<and> (204::int) < 300
   \<and> downloadTemplate (DefaultClient (scripted [answer 204 [] ''body''])) io0 ''https://t''
     = (\<lparr>dest = [], requested = [''https://t'']\<rparr>,
        Some (Err ''unexpected status code: 204''))"
  by (simp add: downloadTemplate_def example_server status_tables)

section \<open>Properties of \<^verbatim>\<open>insertResourceGroup\<close>\<close>

text \<open>
  Whatever the client: when the existence check answers 204 the function returns
  \<open>(False, nil)\<close> in the state the check left, so no create request was issued.
\<close>

lemma insertResourceGroup_present:
  "CheckExistence groups g name = (g', Inr 204) \<Longrightarrow>
   insertResourceGroup groups g name location = (g', False, None)"
  by (simp add: insertResourceGroup_def)

text \<open>
  C6. Against the provider \<open>azure\<close>: when the group does not exist, the call creates it
  in the requested region and reports \<open>created = True\<close>; a second call with the same
  name and any region reports \<open>created = False\<close> without error, and sends the existence
  check only, so the group keeps its region. And with any client at all, an existence
  check that answers 204 is followed by no create request.
\<close>

theorem insertResourceGroup_idempotent:
  assumes "resourceGroups c name = None"
  shows "insertResourceGroup azure c name region =
           (c\<lparr>resourceGroups := (resourceGroups c)(name \<mapsto> region),
              received := received c @
                [CheckExistenceRequest name, CreateOrUpdateRequest name region]\<rparr>,
            True, None)
     \<and> insertResourceGroup azure
           (c\<lparr>resourceGroups := (resourceGroups c)(name \<mapsto> region),
              received := received c @
                [CheckExistenceRequest name, CreateOrUpdateRequest name region]\<rparr>)
           name region' =
           (c\<lparr>resourceGroups := (resourceGroups c)(name \<mapsto> region),
              received := received c @
                [CheckExistenceRequest name, CreateOrUpdateRequest name region,
                 CheckExistenceRequest name]\<rparr>,
            False, None)
     \<and> (\<forall>groups g g'. CheckExistence groups g name = (g', Inr 204) \<longrightarrow>
            insertResourceGroup groups (g :: 'g) name region' = (g', False, None))"
  using assms by (simp add: insertResourceGroup_def azure_def)

theorem insertResourceGroup_idempotent_witness:
  "insertResourceGroup azure cloud0 ''demo-rg'' ''centralus'' =
     (\<lparr>resourceGroups = [''demo-rg'' \<mapsto> ''centralus''],
       received = [CheckExistenceRequest ''demo-rg'',
                   CreateOrUpdateRequest ''demo-rg'' ''centralus'']\<rparr>, True, None)
   \<and> insertResourceGroup azure
       \<lparr>resourceGroups = [''demo-rg'' \<mapsto> ''centralus''],
        received = [CheckExistenceRequest ''demo-rg'',
                    CreateOrUpdateRequest ''demo-rg'' ''centralus'']\<rparr>
       ''demo-rg'' ''eastus'' =
     (\<lparr>resourceGroups = [''demo-rg'' \<mapsto> ''centralus''],
       received = [CheckExistenceRequest ''demo-rg'',
                   CreateOrUpdateRequest ''demo-rg'' ''centralus'',
                   CheckExistenceRequest ''demo-rg'']\<rparr>, False, None)"
proof -
  have absent: "resourceGroups cloud0 ''demo-rg'' = None" by (simp add: cloud0_def)
  from insertResourceGroup_idempotent [OF absent, of "''centralus''" "''eastus''"]
  have "insertResourceGroup azure cloud0 ''demo-rg'' ''centralus'' =
           (cloud0\<lparr>resourceGroups := (resourceGroups cloud0)(''demo-rg'' \<mapsto> ''centralus''),
              received := received cloud0 @
                [CheckExistenceRequest ''demo-rg'',
                 CreateOrUpdateRequest ''demo-rg'' ''centralus'']\<rparr>,
            True, None)"
    and "insertResourceGroup azure
           (cloud0\<lparr>resourceGroups := (resourceGroups cloud0)(''demo-rg'' \<mapsto> ''centralus''),
              received := received cloud0 @
                [CheckExistenceRequest ''demo-rg'',
                 CreateOrUpdateRequest ''demo-rg'' ''centralus'']\<rparr>)
           ''demo-rg'' ''eastus'' =
           (cloud0\<lparr>resourceGroups := (resourceGroups cloud0)(''demo-rg'' \<mapsto> ''centralus''),
              received := received cloud0 @
                [CheckExistenceRequest ''demo-rg'',
                 CreateOrUpdateRequest ''demo-rg'' ''centralus'',
                 CheckExistenceRequest ''demo-rg'']\<rparr>,
            False, None)"
    by blast+
  then show ?thesis by (simp add: cloud0_def)
qed

section \<open>Properties of \<^verbatim>\<open>stripPasswords\<close>\<close>

lemma copyEntries_structs [simp]: "structs (copyEntries es m h) = structs h"
  by (induction es m h rule: copyEntries.induct) (auto simp: mapassign_def)

lemma copyEntries_eq:
  "m < length (maps h) \<Longrightarrow>
   copyEntries es m h =
     h\<lparr>maps := (maps h)[m := fold (\<lambda>(k, v). AList.update k v) es (maps h ! m)]\<rparr>"
  by (induction es m h rule: copyEntries.induct) (auto simp: mapassign_def)

lemma update_second_fresh: "(ms @ [a, b])[Suc (length ms) := c] = ms @ [a, c]"
  by (simp add: list_update_append)

lemma map_of_fold_update:
  "distinct (map fst es) \<Longrightarrow>
   map_of (fold (\<lambda>(k, v). AList.update k v) es acc) = map_of acc ++ map_of es"
proof (induction es arbitrary: acc)
  case Nil
  then show ?case by simp
next
  case (Cons e es)
  obtain k v where e: "e = (k, v)" by (cases e)
  from Cons.prems e have "k \<notin> fst ` set es" and d: "distinct (map fst es)" by auto
  then have none: "map_of es k = None" by (simp add: map_of_eq_None_iff)
  have "map_of (fold (\<lambda>(k, v). AList.update k v) (e # es) acc)
        = map_of (AList.update k v acc) ++ map_of es"
    using Cons.IH [OF d] e by simp
  also have "\<dots> = (map_of acc)(k \<mapsto> v) ++ map_of es"
    by (simp add: update_conv')
  also have "\<dots> = map_of acc ++ map_of (e # es)"
    using none e by (auto simp: map_add_def fun_eq_iff split: option.splits)
  finally show ?case .
qed

lemma distinct_fold_update:
  "distinct (map fst acc) \<Longrightarrow> distinct (map fst (fold (\<lambda>(k, v). AList.update k v) es acc))"
  by (induction es arbitrary: acc) (auto simp: distinct_update)


lemma stripPasswords_eq:
  assumes "valid h p"
  shows "stripPasswords schema version h (Some p) =
     Returns
       (\<lparr>structs = structs h @
            [\<lparr>Schema = Schema (structs h ! p), ContentVersion = ContentVersion (structs h ! p),
              Parameters = Some (Suc (length (maps h)))\<rparr>],
         maps = maps h @ [[], sanitized (range_of h (Parameters (structs h ! p)))]\<rparr>,
        length (structs h))"
proof -
  obtain ss ms where h: "h = \<lparr>structs = ss, maps = ms\<rparr>" by (cases h) simp
  from assms h have p: "p < length ss" by (simp add: valid_def)
  have r: "range_of \<lparr>structs = ss', maps = ms @ ms'\<rparr> (Parameters (ss ! p))
           = range_of \<lparr>structs = ss, maps = ms\<rparr> (Parameters (ss ! p))" for ss' ms'
    using assms h by (auto simp: valid_def range_of_def nth_append split: option.splits)
  have r2: "range_of \<lparr>structs = ss', maps = ms @ [[], []]\<rparr> (Parameters (ss ! p))
           = range_of \<lparr>structs = ss, maps = ms\<rparr> (Parameters (ss ! p))" for ss'
    by (rule r)
  show ?thesis
    unfolding h using p
    by (simp add: stripPasswords_def NewDeploymentParameters_def make_map_def load_def
        store_def mapdelete_def copyEntries_eq nth_append r2 sanitized_def Let_def
        update_second_fresh)
qed

lemma map_of_sanitized:
  "distinct (map fst es) \<Longrightarrow>
   map_of (sanitized es) =
     (map_of es)(''databaseAdministratorLoginPassword'' := None,
                 ''dockerRegistryServerPassword'' := None)"
  by (simp add: sanitized_def delete_conv' map_of_fold_update)

lemma distinct_sanitized: "distinct (map fst (sanitized es))"
  by (simp add: sanitized_def distinct_delete distinct_fold_update)

lemma range_of_old:
  "valid h p \<Longrightarrow>
   range_of \<lparr>structs = ss, maps = maps h @ ms\<rparr> (Parameters (structs h ! p))
     = range_of h (Parameters (structs h ! p))"
  by (auto simp: valid_def range_of_def nth_append split: option.splits)

lemma range_of_new:
  "range_of \<lparr>structs = ss, maps = ms @ [a, b]\<rparr> (Some (Suc (length ms))) = b"
  by (simp add: range_of_def nth_append)

lemma valid_distinct:
  "valid h p \<Longrightarrow> distinct (map fst (range_of h (Parameters (structs h ! p))))"
  by (auto simp: valid_def range_of_def split: option.splits)

lemma stripPasswords_result:
  assumes "valid h p"
  shows "\<exists>h' c. stripPasswords schema version h (Some p) = Returns (h', c)
     \<and> valid h' c
     \<and> Schema (structs h' ! c) = Schema (structs h ! p)
     \<and> ContentVersion (structs h' ! c) = ContentVersion (structs h ! p)
     \<and> range_of h' (Parameters (structs h' ! c))
         = sanitized (range_of h (Parameters (structs h ! p)))"
  unfolding stripPasswords_eq [OF assms]
  by (simp add: valid_def nth_append distinct_sanitized range_of_new)

lemma map_of_sanitized_twice:
  assumes "distinct (map fst es)"
  shows "map_of (sanitized (sanitized es)) = map_of (sanitized es)"
  by (simp add: map_of_sanitized [OF distinct_sanitized] map_of_sanitized [OF assms])

lemma stripPasswords_nil: "stripPasswords schema version h None = Panics"
  by (simp add: stripPasswords_def NewDeploymentParameters_def make_map_def load_def)

lemma valid_heap0: "valid heap0 0"
  by (simp add: valid_def heap0_def)

lemma valid_heap0_nil: "valid heap0 1"
  by (simp add: valid_def heap0_def)

text \<open>
  C7. For every parameter set (a non-nil pointer into the store), \<^verbatim>\<open>stripPasswords\<close>
  returns, the copy holds neither password key, and sanitizing the copy again returns a
  parameter set with the same schema, content version and mapping.
\<close>

theorem stripPasswords_sanitizes:
  assumes "valid h original"
  shows "\<exists>h' copy. stripPasswords schema version h (Some original) = Returns (h', copy)
     \<and> params_of h' copy ''databaseAdministratorLoginPassword'' = None
     \<and> params_of h' copy ''dockerRegistryServerPassword'' = None
     \<and> (\<exists>h'' copy'. stripPasswords schema version h' (Some copy) = Returns (h'', copy')
           \<and> Schema (structs h'' ! copy') = Schema (structs h' ! copy)
           \<and> ContentVersion (structs h'' ! copy') = ContentVersion (structs h' ! copy)
           \<and> params_of h'' copy' = params_of h' copy)"
proof -
  let ?es = "range_of h (Parameters (structs h ! original))"
  have d: "distinct (map fst ?es)" by (rule valid_distinct [OF assms])
  from stripPasswords_result [OF assms, of schema version]
  obtain h' c where first: "stripPasswords schema version h (Some original) = Returns (h', c)"
    and v: "valid h' c"
    and r: "range_of h' (Parameters (structs h' ! c)) = sanitized ?es"
    by blast
  from stripPasswords_result [OF v, of schema version]
  obtain h'' c' where second: "stripPasswords schema version h' (Some c) = Returns (h'', c')"
    and s: "Schema (structs h'' ! c') = Schema (structs h' ! c)"
    and cv: "ContentVersion (structs h'' ! c') = ContentVersion (structs h' ! c)"
    and r': "range_of h'' (Parameters (structs h'' ! c')) = sanitized (sanitized ?es)"
    unfolding r by blast
  have k1: "params_of h' c ''databaseAdministratorLoginPassword'' = None"
    and k2: "params_of h' c ''dockerRegistryServerPassword'' = None"
    unfolding params_of_def r by (simp_all add: map_of_sanitized [OF d])
  have same: "params_of h'' c' = params_of h' c"
    unfolding params_of_def r r' by (rule map_of_sanitized_twice [OF d])
  from first k1 k2 second s cv same show ?thesis by blast
qed

theorem stripPasswords_sanitizes_witness:
  "valid heap0 0
   \<and> params_of heap0 0 ''databaseAdministratorLoginPassword'' = Some ''swordfish''
   \<and> params_of heap0 0 ''dockerRegistryServerPassword'' = Some ''hunter2''
   \<and> (\<exists>h' copy. stripPasswords ''s'' ''v'' heap0 (Some 0) = Returns (h', copy)
     \<and> params_of h' copy ''databaseAdministratorLoginPassword'' = None
     \<and> params_of h' copy ''dockerRegistryServerPassword'' = None
     \<and> (\<exists>h'' copy'. stripPasswords ''s'' ''v'' h' (Some copy) = Returns (h'', copy')
           \<and> Schema (structs h'' ! copy') = Schema (structs h' ! copy)
           \<and> ContentVersion (structs h'' ! copy') = ContentVersion (structs h' ! copy)
           \<and> params_of h'' copy' = params_of h' copy))"
proof -
  have before: "params_of heap0 0 ''databaseAdministratorLoginPassword'' = Some ''swordfish''"
    "params_of heap0 0 ''dockerRegistryServerPassword'' = Some ''hunter2''"
    by (simp_all add: params_of_def range_of_def heap0_def)
  from valid_heap0 before stripPasswords_sanitizes [OF valid_heap0, of "''s''" "''v''"]
  show ?thesis by (intro conjI)
qed

text \<open>
  C10. The call leaves every struct and every map object of the store as it was (the
  returned store only has new objects after them), so the argument and its map are
  unchanged; the copy is a different struct, with the original's schema and content
  version, and its mapping agrees with the original's on every key but the two
  password keys.
\<close>

theorem stripPasswords_frame:
  assumes "valid h original"
  shows "\<exists>h' copy. stripPasswords schema version h (Some original) = Returns (h', copy)
     \<and> take (length (structs h)) (structs h') = structs h
     \<and> take (length (maps h)) (maps h') = maps h
     \<and> copy \<noteq> original
     \<and> structs h' ! original = structs h ! original
     \<and> params_of h' original = params_of h original
     \<and> Schema (structs h' ! copy) = Schema (structs h ! original)
     \<and> ContentVersion (structs h' ! copy) = ContentVersion (structs h ! original)
     \<and> (\<forall>k. k \<noteq> ''databaseAdministratorLoginPassword''
            \<and> k \<noteq> ''dockerRegistryServerPassword'' \<longrightarrow>
            params_of h' copy k = params_of h original k)"
proof -
  from assms have p: "original < length (structs h)" by (simp add: valid_def)
  show ?thesis
    unfolding stripPasswords_eq [OF assms]
    using p valid_distinct [OF assms]
    by (simp add: params_of_def nth_append range_of_old [OF assms] range_of_new
        map_of_sanitized)
qed

theorem stripPasswords_frame_witness:
  "valid heap0 0
   \<and> (\<exists>h' copy. stripPasswords ''s'' ''v'' heap0 (Some 0) = Returns (h', copy)
     \<and> take (length (structs heap0)) (structs h') = structs heap0
     \<and> take (length (maps heap0)) (maps h') = maps heap0
     \<and> copy \<noteq> 0
     \<and> structs h' ! 0 = structs heap0 ! 0
     \<and> params_of h' 0 = params_of heap0 0
     \<and> Schema (structs h' ! copy) = Schema (structs heap0 ! 0)
     \<and> ContentVersion (structs h' ! copy) = ContentVersion (structs heap0 ! 0)
     \<and> params_of h' copy ''name'' = params_of heap0 0 ''name'')"
proof -
  from stripPasswords_frame [OF valid_heap0, of "''s''" "''v''"]
  obtain h' copy where r: "stripPasswords ''s'' ''v'' heap0 (Some 0) = Returns (h', copy)"
     "take (length (structs heap0)) (structs h') = structs heap0"
     "take (length (maps heap0)) (maps h') = maps heap0"
     "copy \<noteq> 0"
     "structs h' ! 0 = structs heap0 ! 0"
     "params_of h' 0 = params_of heap0 0"
     "Schema (structs h' ! copy) = Schema (structs heap0 ! 0)"
     "ContentVersion (structs h' ! copy) = ContentVersion (structs heap0 ! 0)"
     and k: "\<forall>k. k \<noteq> ''databaseAdministratorLoginPassword''
            \<and> k \<noteq> ''dockerRegistryServerPassword'' \<longrightarrow>
            params_of h' copy k = params_of heap0 0 k"
    by blast
  from k have "params_of h' copy ''name'' = params_of heap0 0 ''name''" by simp
  with r valid_heap0 show ?thesis by blast
qed

text \<open>What the store of the example looks like after the call.\<close>

lemma stripPasswords_heap0:
  "stripPasswords ''s'' ''v'' heap0 (Some 0) = Returns
     (\<lparr>structs = structs heap0 @
          [\<lparr>Schema = ''https://schema'', ContentVersion = ''1.0.0.0'', Parameters = Some 2\<rparr>],
       maps = maps heap0 @ [[], [(''name'', ''site'')]]\<rparr>, 2)"
  by (simp add: stripPasswords_def NewDeploymentParameters_def make_map_def load_def
        store_def mapdelete_def mapassign_def range_of_def heap0_def Let_def)

section \<open>Properties of \<^verbatim>\<open>Args\<close> and \<^verbatim>\<open>getAuthorizer\<close>\<close>

text \<open>
  C8 (as amended). With a subscription configured and exactly one of the client
  identifier and the client secret non-empty, \<^verbatim>\<open>Args\<close> returns the error that both
  must be given together and leaves the state as it was: nothing was set, read from
  disk or called before.
\<close>

theorem Args_incomplete_credentials:
  assumes "GetString (provisionConfig g) SubscriptionName \<noteq> []"
    and "(GetString (provisionConfig g) ClientIDName = [])
           \<noteq> (GetString (provisionConfig g) ClientSecretName = [])"
  shows "Args pf pk g =
     Returns (g, Some (Err
       ''--client-id and --client-secret must be specified together or not at all''))"
  using assms by (auto simp: Args_def Let_def)

theorem Args_incomplete_credentials_witness:
  "Args platform0 package0
     (globals0\<lparr>provisionConfig := viper_of [(''subscription-id'', S ''sub''), (''client-id'', S ''app'')]\<rparr>)
   = Returns
     (globals0\<lparr>provisionConfig := viper_of [(''subscription-id'', S ''sub''), (''client-id'', S ''app'')]\<rparr>,
      Some (Err ''--client-id and --client-secret must be specified together or not at all''))"
proof -
  let ?g = "globals0\<lparr>provisionConfig :=
              viper_of [(''subscription-id'', S ''sub''), (''client-id'', S ''app'')]\<rparr>"
  have s: "GetString (provisionConfig ?g) SubscriptionName \<noteq> []"
    by (simp add: GetString_def Get_def viper_of_def SubscriptionName_def)
  have c: "(GetString (provisionConfig ?g) ClientIDName = [])
           \<noteq> (GetString (provisionConfig ?g) ClientSecretName = [])"
    by (simp add: GetString_def Get_def viper_of_def ClientIDName_def ClientSecretName_def)
  from Args_incomplete_credentials [OF s c] show ?thesis .
qed

text \<open>
  C8 as stated fails when no subscription is configured: the check of the
  subscription comes first and its error is returned.
\<close>

theorem Args_subscription_first:
  "GetString (viper_of [(''client-id'', S ''app'')]) ClientIDName \<noteq> []
   \<and> GetString (viper_of [(''client-id'', S ''app'')]) ClientSecretName = []
   \<and> Args platform0 package0 (globals0\<lparr>provisionConfig := viper_of [(''client-id'', S ''app'')]\<rparr>)
     = Returns (globals0\<lparr>provisionConfig := viper_of [(''client-id'', S ''app'')]\<rparr>,
                Some (Err (''no value found for '' @ quoted ''subscription-id'')))"
  by (simp add: Args_def GetString_def Get_def viper_of_def SubscriptionName_def ClientIDName_def
      ClientSecretName_def)

text \<open>
  C9. Without device authentication and with no tenant (the empty string, or the
  placeholder itself), \<^verbatim>\<open>getAuthorizer\<close> builds the OAuth configuration for
  \<^verbatim>\<open>common\<close>, makes no other call and returns an error: that of the configuration
  if it cannot be built, and otherwise
  \<^verbatim>\<open>tenant inference unsupported with Service Principal authentication\<close>.
\<close>

theorem getAuthorizer_missing_tenant:
  assumes "\<not> GetBool (provisionConfig g) DeviceAuthName"
    and "tenantID = [] \<or> tenantID = ''common''"
  shows "getAuthorizer lib g subscriptionID clientID clientSecret tenantID =
     Returns (g\<lparr>calls := calls g @ [NewOAuthConfigCall ''common'']\<rparr>,
       Inl (case NewOAuthConfig lib (ActiveDirectoryEndpoint (environment g)) ''common'' of
              Inl err \<Rightarrow> err
            | Inr _ \<Rightarrow>
                Err ''tenant inference unsupported with Service Principal authentication''))"
  using assms by (auto simp: getAuthorizer_def commonTenant_def Let_def split: sum.splits)

theorem getAuthorizer_missing_tenant_witness:
  "getAuthorizer (directory []) globals0 ''sub'' ''app'' ''secret'' [] =
     Returns (globals0\<lparr>calls := [NewOAuthConfigCall ''common'']\<rparr>,
       Inl (Err ''tenant inference unsupported with Service Principal authentication''))"
proof -
  have d: "\<not> GetBool (provisionConfig globals0) DeviceAuthName"
    by (simp add: GetBool_def Get_def viper_of_def globals0_def)
  have t: "([] :: string) = [] \<or> ([] :: string) = ''common''" by simp
  from getAuthorizer_missing_tenant [OF d t, of "directory []" "''sub''" "''app''" "''secret''"]
  show ?thesis by (simp add: directory_def globals0_def)
qed

section \<open>Properties of \<^verbatim>\<open>getTenant\<close>\<close>

lemma subscriptionsLoop_of_list:
  "subscriptionsLoop uni tid sub (of_list ss) seen =
     (case find (matches uni sub) ss of
        None \<Rightarrow> (Ended None, seen @ map (Pair tid) ss)
      | Some hit \<Rightarrow>
          (Match, seen @ map (Pair tid) (takeWhile (\<lambda>s. \<not> matches uni sub s) ss) @ [(tid, hit)]))"
  by (induction ss arbitrary: seen) (auto simp: matches_def split: option.splits)

lemma cross_Cons: "cross (tid # tids) subs = map (Pair tid) (subs tid) @ cross tids subs"
  by (simp add: cross_def)

lemma find_pairs_append:
  "find (\<lambda>p. P (snd p)) (map (Pair tid) ss @ rest) =
     (case find P ss of Some s \<Rightarrow> Some (tid, s) | None \<Rightarrow> find (\<lambda>p. P (snd p)) rest)"
  by (induction ss) auto

lemma takeWhile_pairs_append:
  "takeWhile (\<lambda>p. \<not> P (snd p)) (map (Pair tid) ss @ rest) =
     (case find P ss of
        Some s \<Rightarrow> map (Pair tid) (takeWhile (\<lambda>s. \<not> P s) ss)
      | None \<Rightarrow> map (Pair tid) ss @ takeWhile (\<lambda>p. \<not> P (snd p)) rest)"
  by (induction ss) (auto split: option.splits)

lemma find_cross_Cons:
  "find (\<lambda>p. P (snd p)) (cross (tid # tids) subs) =
     (case find P (subs tid) of
        Some s \<Rightarrow> Some (tid, s)
      | None \<Rightarrow> find (\<lambda>p. P (snd p)) (cross tids subs))"
  unfolding cross_Cons by (rule find_pairs_append)

lemma takeWhile_cross_Cons:
  "takeWhile (\<lambda>p. \<not> P (snd p)) (cross (tid # tids) subs) =
     (case find P (subs tid) of
        Some s \<Rightarrow> map (Pair tid) (takeWhile (\<lambda>s. \<not> P s) (subs tid))
      | None \<Rightarrow> map (Pair tid) (subs tid) @ takeWhile (\<lambda>p. \<not> P (snd p)) (cross tids subs))"
  unfolding cross_Cons by (rule takeWhile_pairs_append)

lemma tenantsLoop_of_list:
  assumes "\<forall>tid\<in>set tids.
      NewOAuthConfig lib (ActiveDirectoryEndpoint (environment g)) tid = Inr (cfg tid)
    \<and> NewServicePrincipalTokenFromManualToken lib (cfg tid) deviceClientID
        (ResourceManagerEndpoint (environment g))
        \<lparr>AccessToken = [], RefreshToken = RefreshToken common\<rparr> = Inr (spt tid)
    \<and> SubscriptionsListComplete lib (BearerAuthorizer (ServicePrincipal (spt tid)))
        = of_list (subs tid)"
  shows "\<exists>g'. tenantsLoop lib common subscription (of_list (map tenant tids)) g =
      Returns (g',
        (case scan_result (EqualFoldUnicode lib) subscription (cross tids subs) of
           None \<Rightarrow> Inl (Err (''unable to find subscription: '' @ subscription))
         | Some (tid, sub) \<Rightarrow> Inr (tid, BearerAuthorizer (ServicePrincipal (spt tid)))))
    \<and> scanned g' = scanned g @ scan_trace (EqualFoldUnicode lib) subscription (cross tids subs)
    \<and> provisionConfig g' =
        (case scan_result (EqualFoldUnicode lib) subscription (cross tids subs) of
           None \<Rightarrow> provisionConfig g
         | Some (tid, sub) \<Rightarrow> Set (provisionConfig g) TenantIDName (S tid))"
  using assms
proof (induction tids arbitrary: g)
  case Nil
  then show ?case by (simp add: cross_def scan_result_def scan_trace_def)
next
  case (Cons tid tids)
  let ?uni = "EqualFoldUnicode lib"
  let ?P = "matches ?uni subscription"
  from Cons.prems have
    c: "NewOAuthConfig lib (ActiveDirectoryEndpoint (environment g)) tid = Inr (cfg tid)"
    and m: "NewServicePrincipalTokenFromManualToken lib (cfg tid) deviceClientID
        (ResourceManagerEndpoint (environment g))
        \<lparr>AccessToken = [], RefreshToken = RefreshToken common\<rparr> = Inr (spt tid)"
    and l: "SubscriptionsListComplete lib (BearerAuthorizer (ServicePrincipal (spt tid)))
        = of_list (subs tid)"
    by simp_all
  show ?case
  proof (cases "find ?P (subs tid)")
    case (Some hit)
    then show ?thesis
      using c m l
      by (simp add: tenant_def subscriptionsLoop_of_list scan_result_def scan_trace_def
          find_cross_Cons takeWhile_cross_Cons)
  next
    case None
    let ?g = "g\<lparr>calls := calls g @ [NewOAuthConfigCall tid, ManualTokenCall tid,
                   ListSubscriptionsCall tid],
                 scanned := scanned g @ map (Pair tid) (subs tid)\<rparr>"
    have step: "tenantsLoop lib common subscription (of_list (map tenant (tid # tids))) g =
        tenantsLoop lib common subscription (of_list (map tenant tids)) ?g"
      using c m l None by (simp add: tenant_def subscriptionsLoop_of_list)
    have "\<forall>tid\<in>set tids.
        NewOAuthConfig lib (ActiveDirectoryEndpoint (environment ?g)) tid = Inr (cfg tid)
      \<and> NewServicePrincipalTokenFromManualToken lib (cfg tid) deviceClientID
          (ResourceManagerEndpoint (environment ?g))
          \<lparr>AccessToken = [], RefreshToken = RefreshToken common\<rparr> = Inr (spt tid)
      \<and> SubscriptionsListComplete lib (BearerAuthorizer (ServicePrincipal (spt tid)))
          = of_list (subs tid)"
      using Cons.prems by simp
    from Cons.IH [OF this] obtain g' where
      r: "tenantsLoop lib common subscription (of_list (map tenant tids)) ?g =
        Returns (g',
          (case scan_result ?uni subscription (cross tids subs) of
             None \<Rightarrow> Inl (Err (''unable to find subscription: '' @ subscription))
           | Some (tid, sub) \<Rightarrow> Inr (tid, BearerAuthorizer (ServicePrincipal (spt tid)))))"
      and s: "scanned g' = scanned ?g @ scan_trace ?uni subscription (cross tids subs)"
      and p: "provisionConfig g' =
          (case scan_result ?uni subscription (cross tids subs) of
             None \<Rightarrow> provisionConfig ?g
           | Some (tid, sub) \<Rightarrow> Set (provisionConfig ?g) TenantIDName (S tid))"
      by blast
    have sr: "scan_result ?uni subscription (cross (tid # tids) subs)
              = scan_result ?uni subscription (cross tids subs)"
      using None by (simp add: scan_result_def find_cross_Cons)
    have st: "scan_trace ?uni subscription (cross (tid # tids) subs)
              = map (Pair tid) (subs tid) @ scan_trace ?uni subscription (cross tids subs)"
      using None sr
      by (auto simp: scan_trace_def takeWhile_cross_Cons split: option.splits
          intro: cross_Cons)
    have pc: "provisionConfig ?g = provisionConfig g" by simp
    have sc: "scanned ?g = scanned g @ map (Pair tid) (subs tid)" by simp
    show ?thesis
      unfolding step sr st using r s p unfolding pc sc
      by (intro exI [of _ g']) simp
  qed
qed

lemma of_char_lower:
  "(of_char (lower c) :: nat) =
     (if 65 \<le> (of_char c :: nat) \<and> (of_char c :: nat) \<le> 90 then of_char c + 32 else of_char c)"
  by (simp add: lower_def)

lemma lower_eq_iff:
  assumes "(of_char a :: nat) < 128" and "(of_char b :: nat) < 128" and "b \<noteq> a"
  shows "lower a = lower b \<longleftrightarrow>
     (65 \<le> min (of_char a) (of_char b :: nat) \<and> min (of_char a) (of_char b :: nat) \<le> 90
      \<and> max (of_char a) (of_char b :: nat) = min (of_char a) (of_char b) + 32)"
proof -
  have ne: "(of_char a :: nat) \<noteq> of_char b" using assms(3) by simp
  have "lower a = lower b \<longleftrightarrow> (of_char (lower a) :: nat) = of_char (lower b)"
    by simp
  also have "\<dots> \<longleftrightarrow> (65 \<le> min (of_char a) (of_char b :: nat)
      \<and> min (of_char a) (of_char b :: nat) \<le> 90
      \<and> max (of_char a) (of_char b :: nat) = min (of_char a) (of_char b) + 32)"
    unfolding of_char_lower using ne assms(1,2) by (auto simp: min_def max_def)
  finally show ?thesis .
qed

lemma EqualFold_ascii:
  "ascii s \<Longrightarrow> ascii t \<Longrightarrow> EqualFold uni s t \<longleftrightarrow> map lower s = map lower t"
proof (induction uni s t rule: EqualFold.induct)
  case (1 uni sr s tr t)
  then have a: "(of_char sr :: nat) < 128" "(of_char tr :: nat) < 128" "ascii s" "ascii t"
    by (simp_all add: ascii_def)
  show ?case
  proof (cases "tr = sr")
    case True
    with 1 a show ?thesis by simp
  next
    case False
    with 1 a lower_eq_iff [OF a(1,2) False] show ?thesis
      by (auto simp: Let_def)
  qed
qed auto

text \<open>
  C5. When the listings and the token calls do not fail, \<^verbatim>\<open>getTenant\<close> returns the
  tenant of the first pair of the cross product whose subscription matches the target,
  with the authorizer minted for that tenant, having compared the pairs up to that one
  and no other, and records the tenant in the configuration; when no pair matches it
  returns \<^verbatim>\<open>unable to find subscription\<close>, having compared every pair once, in order.
  On ASCII identifiers the comparison is equality up to the case of letters.
\<close>

theorem getTenant_scan:
  assumes "TenantsListComplete lib (BearerAuthorizer (DeviceToken common))
             = of_list (map tenant tids)"
    and "\<forall>tid\<in>set tids.
      NewOAuthConfig lib (ActiveDirectoryEndpoint (environment g)) tid = Inr (cfg tid)
    \<and> NewServicePrincipalTokenFromManualToken lib (cfg tid) deviceClientID
        (ResourceManagerEndpoint (environment g))
        \<lparr>AccessToken = [], RefreshToken = RefreshToken common\<rparr> = Inr (spt tid)
    \<and> SubscriptionsListComplete lib (BearerAuthorizer (ServicePrincipal (spt tid)))
        = of_list (subs tid)"
  shows "(\<exists>g'. getTenant lib g common target =
      Returns (g',
        (case scan_result (EqualFoldUnicode lib) target (cross tids subs) of
           None \<Rightarrow> Inl (Err (''unable to find subscription: '' @ target))
         | Some (tid, sub) \<Rightarrow> Inr (tid, BearerAuthorizer (ServicePrincipal (spt tid)))))
    \<and> scanned g' = scanned g @ scan_trace (EqualFoldUnicode lib) target (cross tids subs)
    \<and> provisionConfig g' =
        (case scan_result (EqualFoldUnicode lib) target (cross tids subs) of
           None \<Rightarrow> provisionConfig g
         | Some (tid, sub) \<Rightarrow> Set (provisionConfig g) TenantIDName (S tid)))
    \<and> (\<forall>sid. ascii sid \<and> ascii target \<longrightarrow>
          matches (EqualFoldUnicode lib) target (subscription_with sid)
            = (map lower sid = map lower target))"
proof -
  let ?g = "g\<lparr>calls := calls g @ [ListTenantsCall]\<rparr>"
  have "\<forall>tid\<in>set tids.
      NewOAuthConfig lib (ActiveDirectoryEndpoint (environment ?g)) tid = Inr (cfg tid)
    \<and> NewServicePrincipalTokenFromManualToken lib (cfg tid) deviceClientID
        (ResourceManagerEndpoint (environment ?g))
        \<lparr>AccessToken = [], RefreshToken = RefreshToken common\<rparr> = Inr (spt tid)
    \<and> SubscriptionsListComplete lib (BearerAuthorizer (ServicePrincipal (spt tid)))
        = of_list (subs tid)"
    using assms(2) by simp
  note each = this
  have pc: "provisionConfig ?g = provisionConfig g" and sc: "scanned ?g = scanned g"
    by simp_all
  from tenantsLoop_of_list [OF each, of target]
  have "\<exists>g'. getTenant lib g common target =
      Returns (g',
        (case scan_result (EqualFoldUnicode lib) target (cross tids subs) of
           None \<Rightarrow> Inl (Err (''unable to find subscription: '' @ target))
         | Some (tid, sub) \<Rightarrow> Inr (tid, BearerAuthorizer (ServicePrincipal (spt tid)))))
    \<and> scanned g' = scanned g @ scan_trace (EqualFoldUnicode lib) target (cross tids subs)
    \<and> provisionConfig g' =
        (case scan_result (EqualFoldUnicode lib) target (cross tids subs) of
           None \<Rightarrow> provisionConfig g
         | Some (tid, sub) \<Rightarrow> Set (provisionConfig g) TenantIDName (S tid))"
    unfolding getTenant_def assms(1) pc sc .
  moreover have "\<forall>sid. ascii sid \<and> ascii target \<longrightarrow>
          matches (EqualFoldUnicode lib) target (subscription_with sid)
            = (map lower sid = map lower target)"
    by (simp add: matches_def subscription_with_def EqualFold_ascii)
  ultimately show ?thesis by blast
qed

theorem getTenant_scan_witness:
  "(\<exists>g'. getTenant directory0 globals0 token0 ''c2'' =
      Returns (g', Inr (''t2'', BearerAuthorizer (ServicePrincipal ''t2'')))
    \<and> scanned g' = [(''t1'', subscription_with ''a''), (''t1'', subscription_with ''b''),
                     (''t2'', subscription_with ''C2'')]
    \<and> provisionConfig g' = Set (viper_of []) ''tenant-id'' (S ''t2''))
   \<and> (\<exists>g'. getTenant directory0 globals0 token0 ''e'' =
      Returns (g', Inl (Err ''unable to find subscription: e''))
    \<and> scanned g' = [(''t1'', subscription_with ''a''), (''t1'', subscription_with ''b''),
                     (''t2'', subscription_with ''C2''), (''t2'', subscription_with ''d''),
                     (''t3'', subscription_with ''c2'')]
    \<and> provisionConfig g' = viper_of [])"
proof -
  have tl: "TenantsListComplete directory0 (BearerAuthorizer (DeviceToken token0))
             = of_list (map tenant [''t1'', ''t2'', ''t3''])"
    by (simp add: directory0_def directory_def)
  have each: "\<forall>tid\<in>set [''t1'', ''t2'', ''t3''].
      NewOAuthConfig directory0 (ActiveDirectoryEndpoint (environment globals0)) tid = Inr tid
    \<and> NewServicePrincipalTokenFromManualToken directory0 tid deviceClientID
        (ResourceManagerEndpoint (environment globals0))
        \<lparr>AccessToken = [], RefreshToken = RefreshToken token0\<rparr> = Inr tid
    \<and> SubscriptionsListComplete directory0 (BearerAuthorizer (ServicePrincipal tid))
        = of_list (subscriptions0 tid)"
    by (simp add: directory0_def directory_def subscriptions0_def)
  have uni: "EqualFoldUnicode directory0 = (\<lambda>s t. s = t)"
    by (simp add: directory0_def directory_def)
  have pairs: "cross [''t1'', ''t2'', ''t3''] subscriptions0 =
      [(''t1'', subscription_with ''a''), (''t1'', subscription_with ''b''),
       (''t2'', subscription_with ''C2''), (''t2'', subscription_with ''d''),
       (''t3'', subscription_with ''c2'')]"
    by (simp add: cross_def subscriptions0_def)
  have pc: "provisionConfig globals0 = viper_of []" and sc: "scanned globals0 = []"
    by (simp_all add: globals0_def)
  have hit: "\<exists>g'. getTenant directory0 globals0 token0 ''c2'' =
      Returns (g', Inr (''t2'', BearerAuthorizer (ServicePrincipal ''t2'')))
    \<and> scanned g' = [(''t1'', subscription_with ''a''), (''t1'', subscription_with ''b''),
                     (''t2'', subscription_with ''C2'')]
    \<and> provisionConfig g' = Set (viper_of []) ''tenant-id'' (S ''t2'')"
    using getTenant_scan [OF tl each, of "''c2''"]
    unfolding uni pairs pc sc
    by (simp add: scan_result_def scan_trace_def matches_def subscription_with_def TenantIDName_def)
  have miss: "\<exists>g'. getTenant directory0 globals0 token0 ''e'' =
      Returns (g', Inl (Err ''unable to find subscription: e''))
    \<and> scanned g' = [(''t1'', subscription_with ''a''), (''t1'', subscription_with ''b''),
                     (''t2'', subscription_with ''C2''), (''t2'', subscription_with ''d''),
                     (''t3'', subscription_with ''c2'')]
    \<and> provisionConfig g' = viper_of []"
    using getTenant_scan [OF tl each, of "''e''"]
    unfolding uni pairs pc sc
    by (simp add: scan_result_def scan_trace_def matches_def subscription_with_def)
  from hit miss show ?thesis by (rule conjI)
qed

text \<open>A run of the scan on a directory of two tenants.\<close>

lemma getTenant_example:
  "getTenant (directory [(''t1'', of_list [subscription_with ''a'', subscription_with ''b'']),
                         (''t2'', of_list [subscription_with ''C2'', subscription_with ''d''])])
     globals0 token0 ''c2''
   = Returns
      (globals0\<lparr>calls := [ListTenantsCall, NewOAuthConfigCall ''t1'', ManualTokenCall ''t1'',
                  ListSubscriptionsCall ''t1'', NewOAuthConfigCall ''t2'', ManualTokenCall ''t2'',
                  ListSubscriptionsCall ''t2''],
                scanned := [(''t1'', subscription_with ''a''), (''t1'', subscription_with ''b''),
                            (''t2'', subscription_with ''C2'')],
                provisionConfig := Set (viper_of []) ''tenant-id'' (S ''t2'')\<rparr>,
       Inr (''t2'', BearerAuthorizer (ServicePrincipal ''t2'')))"
  by (simp add: getTenant_def directory_def globals0_def token0_def tenant_def
      subscription_with_def TenantIDName_def)

text \<open>
  The errors of the two token calls end the scan at once.
\<close>

lemma tenantsLoop_config_error:
  assumes "TenantID t = Some tid"
    and "NewOAuthConfig lib (ActiveDirectoryEndpoint (environment g)) tid = Inl err"
  shows "tenantsLoop lib common target (Item t rest) g =
           Returns (g\<lparr>calls := calls g @ [NewOAuthConfigCall tid]\<rparr>, Inl err)"
  using assms by simp

lemma tenantsLoop_token_error:
  assumes "TenantID t = Some tid"
    and "NewOAuthConfig lib (ActiveDirectoryEndpoint (environment g)) tid = Inr c"
    and "NewServicePrincipalTokenFromManualToken lib c deviceClientID
           (ResourceManagerEndpoint (environment g))
           \<lparr>AccessToken = [], RefreshToken = RefreshToken common\<rparr> = Inl err"
  shows "tenantsLoop lib common target (Item t rest) g =
           Returns (g\<lparr>calls := calls g @ [NewOAuthConfigCall tid, ManualTokenCall tid]\<rparr>,
                    Inl err)"
  using assms by simp

text \<open>
  C2 (evaluation at the failing input). An error of the subscription listing is not
  returned. When the listing of tenant \<^verbatim>\<open>t1\<close> fails, the scan goes on to \<^verbatim>\<open>t2\<close> and
  returns it; when the last listing fails after one subscription, the function reports
  that the subscription was not found.
\<close>

theorem listing_error_skipped:
  "getTenant (directory [(''t1'', Failed (Err ''throttled'')),
                         (''t2'', of_list [subscription_with ''sub''])])
     globals0 token0 ''sub''
   = Returns
      (globals0\<lparr>calls := [ListTenantsCall, NewOAuthConfigCall ''t1'', ManualTokenCall ''t1'',
                  ListSubscriptionsCall ''t1'', NewOAuthConfigCall ''t2'', ManualTokenCall ''t2'',
                  ListSubscriptionsCall ''t2''],
                scanned := [(''t2'', subscription_with ''sub'')],
                provisionConfig := Set (viper_of []) ''tenant-id'' (S ''t2'')\<rparr>,
       Inr (''t2'', BearerAuthorizer (ServicePrincipal ''t2'')))
   \<and> getTenant (directory [(''t1'', Item (subscription_with ''other'') (Failed (Err ''throttled'')))])
     globals0 token0 ''sub''
   = Returns
      (globals0\<lparr>calls := [ListTenantsCall, NewOAuthConfigCall ''t1'', ManualTokenCall ''t1'',
                  ListSubscriptionsCall ''t1''],
                scanned := [(''t1'', subscription_with ''other'')]\<rparr>,
       Inl (Err ''unable to find subscription: sub''))"
  by (simp add: getTenant_def directory_def globals0_def token0_def tenant_def
      subscription_with_def TenantIDName_def)

end
